theory Spec2Isabelle
  imports Main
begin

section \<open>Strings of the Python standard library\<close>

text \<open>
  The module \<^verbatim>\<open>openelex/base/publish.py\<close> works on Python strings. A string is a
  \<^typ>\<open>string\<close> (a list of characters). The functions of this section are the standard
  library functions that \<^verbatim>\<open>publish.py\<close> calls, with the behaviour of \<^verbatim>\<open>posixpath\<close>
  (the \<^verbatim>\<open>os.path\<close> of a POSIX host) and of byte strings in the C locale.
\<close>

text \<open>\<^verbatim>\<open>s.startswith(prefix)\<close> and \<^verbatim>\<open>s.endswith(suffix)\<close>.\<close>

definition startswith :: "string \<Rightarrow> string \<Rightarrow> bool" where
  "startswith s pre = (take (length pre) s = pre)"

definition endswith :: "string \<Rightarrow> string \<Rightarrow> bool" where
  "endswith s suf = (length suf \<le> length s \<and> drop (length s - length suf) s = suf)"

text \<open>
  \<^verbatim>\<open>p.rfind(c)\<close> for a one-character \<^verbatim>\<open>c\<close>: the highest index at which \<^verbatim>\<open>c\<close> occurs,
  or \<open>-1\<close>. The scan keeps the index reached and the last index found.
\<close>

fun rfind_from :: "char \<Rightarrow> string \<Rightarrow> int \<Rightarrow> int \<Rightarrow> int" where
  "rfind_from c [] i found = found"
| "rfind_from c (x # xs) i found = rfind_from c xs (i + 1) (if x = c then i else found)"

definition rfind :: "string \<Rightarrow> char \<Rightarrow> int" where
  "rfind p c = rfind_from c p 0 (- 1)"

text \<open>
  \<^verbatim>\<open>os.path.splitext(p)\<close>, that is \<^verbatim>\<open>genericpath._splitext(p, '/', None, '.')\<close>:
  \<^verbatim>\<open>
    sepIndex = p.rfind(sep)
    dotIndex = p.rfind(extsep)
    if dotIndex > sepIndex:
        # skip all leading dots
        filenameIndex = sepIndex + 1
        while filenameIndex < dotIndex:
            if p[filenameIndex:filenameIndex+1] != extsep:
                return p[:dotIndex], p[dotIndex:]
            filenameIndex += 1
    return p, p[:0]
  \<close>
  \<open>skip_dots\<close> is the while loop: \<open>Some\<close> of the pair it returns from inside the loop,
  \<open>None\<close> when the loop runs to its end.
\<close>

function skip_dots :: "string \<Rightarrow> int \<Rightarrow> int \<Rightarrow> (string \<times> string) option" where
  "skip_dots p filenameIndex dotIndex =
     (if filenameIndex < dotIndex then
        (if take 1 (drop (nat filenameIndex) p) \<noteq> ''.''
         then Some (take (nat dotIndex) p, drop (nat dotIndex) p)
         else skip_dots p (filenameIndex + 1) dotIndex)
      else None)"
  by pat_completeness auto
termination
  by (relation "measure (\<lambda>(p, filenameIndex, dotIndex). nat (dotIndex - filenameIndex))") auto

declare skip_dots.simps [simp del]

definition splitext :: "string \<Rightarrow> string \<times> string" where
  "splitext p =
     (let sepIndex = rfind p CHR ''/'';
          dotIndex = rfind p CHR ''.''
      in if dotIndex > sepIndex then
           (case skip_dots p (sepIndex + 1) dotIndex of
              Some r \<Rightarrow> r
            | None \<Rightarrow> (p, []))
         else (p, []))"

text \<open>\<^verbatim>\<open>os.path.basename(p)\<close>: \<^verbatim>\<open>i = p.rfind('/') + 1; return p[i:]\<close>.\<close>

definition basename :: "string \<Rightarrow> string" where
  "basename p = (let i = rfind p CHR ''/'' + 1 in drop (nat i) p)"

text \<open>
  \<^verbatim>\<open>posixpath.join(a, *p)\<close>:
  \<^verbatim>\<open>
    sep = '/'
    path = a
    for b in p:
        if b.startswith(sep):
            path = b
        elif not path or path.endswith(sep):
            path += b
        else:
            path += sep + b
    return path
  \<close>
\<close>

fun posixpath_join :: "string \<Rightarrow> string list \<Rightarrow> string" where
  "posixpath_join path [] = path"
| "posixpath_join path (b # p) =
     (if startswith b ''/'' then posixpath_join b p
      else if path = [] \<or> endswith path ''/'' then posixpath_join (path @ b) p
      else posixpath_join (path @ ''/'' @ b) p)"

text \<open>\<^verbatim>\<open>sep.join(bits)\<close>.\<close>

fun str_join :: "string \<Rightarrow> string list \<Rightarrow> string" where
  "str_join sep [] = []"
| "str_join sep [x] = x"
| "str_join sep (x # y # ys) = x @ sep @ str_join sep (y # ys)"

text \<open>
  \<^verbatim>\<open>template.format(arg)\<close> for a template with one replacement field \<^verbatim>\<open>{}\<close>: the field
  is replaced by the argument, the rest of the template is copied.
\<close>

fun format_str :: "string \<Rightarrow> string \<Rightarrow> string" where
  "format_str [] arg = []"
| "format_str (c # rest) arg =
     (if c = CHR ''{'' \<and> take 1 rest = ''}'' then arg @ drop 1 rest
      else c # format_str rest arg)"

text \<open>
  \<^verbatim>\<open>s.lower()\<close>: the letters \<^verbatim>\<open>A\<close> to \<^verbatim>\<open>Z\<close> (codes 65 to 90) are moved to \<^verbatim>\<open>a\<close> to
  \<^verbatim>\<open>z\<close>, every other character is kept.
\<close>

definition lower_char :: "char \<Rightarrow> char" where
  "lower_char c =
     (let n = (of_char c :: nat) in if 65 \<le> n \<and> n \<le> 90 then char_of (n + 32) else c)"

definition str_lower :: "string \<Rightarrow> string" where
  "str_lower s = map lower_char s"

text \<open>
  Two strings that differ in the case of their letters only: the same length, and at every
  position the same character, or an upper-case letter on one side and the letter 32 codes
  above it on the other.
\<close>

definition same_letter :: "char \<Rightarrow> char \<Rightarrow> bool" where
  "same_letter a b =
     (let m = (of_char a :: nat); n = (of_char b :: nat)
      in a = b \<or> (65 \<le> m \<and> m \<le> 90 \<and> n = m + 32) \<or> (65 \<le> n \<and> n \<le> 90 \<and> m = n + 32))"

definition same_modulo_case :: "string \<Rightarrow> string \<Rightarrow> bool" where
  "same_modulo_case s t = list_all2 same_letter s t"

text \<open>Python's truth value of an optional string: \<^verbatim>\<open>None\<close> and \<^verbatim>\<open>''\<close> are false.\<close>

fun truthy :: "string option \<Rightarrow> bool" where
  "truthy None = False"
| "truthy (Some s) = (s \<noteq> [])"

section \<open>The module's constants and pure functions\<close>

definition RAW_PREFIX :: string where
  "RAW_PREFIX = ''raw''"

definition CLEAN_PREFIX :: string where
  "CLEAN_PREFIX = ''clean''"

text \<open>
  \<^verbatim>\<open>ResultFileFinder.build_glob(state, search_dir, ext, datefilter=None, raw=False)\<close>.
  The list \<open>filename_bits\<close> is built by appending, in the order of the source.
\<close>

definition build_glob :: "string \<Rightarrow> string \<Rightarrow> string \<Rightarrow> string option \<Rightarrow> bool \<Rightarrow> string" where
  "build_glob state search_dir ext datefilter raw =
     (let filename_bits = [];
          datefilter_bit =
            (if truthy datefilter then
               (let datefilter_bit = the datefilter
                in if length datefilter_bit < 6 then datefilter_bit @ ''*'' else datefilter_bit)
             else ''*'');
          filename_bits = filename_bits @ [datefilter_bit];
          filename_bits = filename_bits @ [state];
          filename_bits = filename_bits @ [''*''];
          filename_bits = (if raw then filename_bits @ [RAW_PREFIX] else filename_bits);
          filename_glob = format_str ''{}'' (str_join ''__'' filename_bits) @ ext;
          pathname = posixpath_join search_dir [filename_glob]
      in pathname)"

text \<open>\<^verbatim>\<open>GitHubPublisher.results_repo_name(state)\<close>.\<close>

definition results_repo_name :: "string \<Rightarrow> string" where
  "results_repo_name state = format_str ''openelections-results-{}'' (str_lower state)"

text \<open>\<^verbatim>\<open>GitHubPublisher.get_path(filename)\<close>.\<close>

definition get_path :: "string \<Rightarrow> string" where
  "get_path filename =
     (let (base, ext) = splitext filename;
          without_dir = basename filename
      in if endswith base ''raw'' then posixpath_join RAW_PREFIX [without_dir]
         else posixpath_join CLEAN_PREFIX [without_dir])"

text \<open>
  An entry of the remote tree (\<^verbatim>\<open>hsh\<close> in the source) has a path and a sha. The loop of
  \<^verbatim>\<open>GitHubPublisher.get_sha\<close> over \<^verbatim>\<open>tree.tree\<close> returns the sha of the first entry with
  the path, and \<^verbatim>\<open>None\<close> from the \<^verbatim>\<open>else\<close> of the \<^verbatim>\<open>for\<close> when the loop ends.
\<close>

record hash =
  hsh_path :: string
  hsh_sha :: string

fun scan_tree :: "hash list \<Rightarrow> string \<Rightarrow> string option" where
  "scan_tree [] path = None"
| "scan_tree (hsh # tree) path =
     (if hsh_path hsh = path then Some (hsh_sha hsh) else scan_tree tree path)"

section \<open>Exceptions, collaborators and the log of calls\<close>

text \<open>
  An exception is a value. \<open>TypeError\<close> and \<open>NotImplementedError\<close> are Python's own;
  \<open>CollaboratorError\<close> is any exception raised by a collaborator (\<^verbatim>\<open>github3\<close>,
  \<^verbatim>\<open>glob\<close>, \<^verbatim>\<open>open\<close> and \<^verbatim>\<open>read\<close>, a listener of a \<^verbatim>\<open>blinker\<close> signal).
\<close>

datatype error =
    TypeError string
  | NotImplementedError string
  | CollaboratorError string

text \<open>
  The two built-in objects that matter for \<^verbatim>\<open>BasePublisher.publish\<close>: the constant
  \<^verbatim>\<open>NotImplemented\<close>, which is not callable, and the exception class
  \<^verbatim>\<open>NotImplementedError\<close>. \<open>py_raise_call b msg\<close> is the exception that leaves the
  statement \<^verbatim>\<open>raise b(msg)\<close>: the call is evaluated first, and calling an object that is
  not callable raises \<^verbatim>\<open>TypeError\<close>.
\<close>

datatype builtin = PyNotImplemented | PyNotImplementedError

fun py_raise_call :: "builtin \<Rightarrow> string \<Rightarrow> error" where
  "py_raise_call PyNotImplemented msg =
     TypeError ([CHR 0x27] @ ''NotImplementedType'' @ [CHR 0x27] @ '' object is not callable'')"
| "py_raise_call PyNotImplementedError msg = NotImplementedError msg"

text \<open>
  A repository handle of \<^verbatim>\<open>github3\<close> is named by its owner and its name. Every call to a
  collaborator is logged as an event, in the order the calls are made.
\<close>

type_synonym repo = "string \<times> string"

datatype event =
    Login string string
  | GetRepository string string
  | Glob string
  | Send string string string
  | Open string
  | Read string
  | Close string
  | Tree repo string
  | UpdateFile repo string string string string
  | CreateFile repo string string string
  | Merge repo string string

fun is_write :: "event \<Rightarrow> bool" where
  "is_write (UpdateFile repo path msg content sha) = True"
| "is_write (CreateFile repo path msg content) = True"
| "is_write ev = False"

fun is_merge :: "event \<Rightarrow> bool" where
  "is_merge (Merge repo base head) = True"
| "is_merge ev = False"

fun is_send :: "string \<Rightarrow> event \<Rightarrow> bool" where
  "is_send name (Send name' sender filename) = (name' = name)"
| "is_send name ev = False"

text \<open>
  The collaborators are parameters. Each answers a call from the log of the calls made so
  far and the call's arguments, with \<open>Inl\<close> of the exception it raises or \<open>Inr\<close> of the
  value it returns. \<open>COUNTRY_DIR\<close> is the constant imported from \<^verbatim>\<open>openelex\<close>.
  \<^item> \<open>github3_login\<close>: \<^verbatim>\<open>github3.login(username, password)\<close>;
  \<^item> \<open>gh_repository\<close>: \<^verbatim>\<open>gh.repository(owner, name)\<close>;
  \<^item> \<open>glob_glob\<close>: \<^verbatim>\<open>glob.glob(pattern)\<close>;
  \<^item> \<open>signal_send\<close>: \<^verbatim>\<open>signal(name).send(sender, filename=filename)\<close>;
  \<^item> \<open>file_open\<close>, \<open>file_read\<close>: \<^verbatim>\<open>open(filename, 'r')\<close> and \<^verbatim>\<open>f.read()\<close>;
  \<^item> \<open>repo_tree\<close>: the list \<^verbatim>\<open>repo.tree(branch).recurse().tree\<close>;
  \<^item> \<open>repo_update_file\<close>: \<^verbatim>\<open>repo.update_file(path, msg, content, sha)\<close>;
  \<^item> \<open>repo_create_file\<close>: \<^verbatim>\<open>repo.create_file(path, msg, content)\<close>;
  \<^item> \<open>repo_merge\<close>: \<^verbatim>\<open>repo.merge(base, head)\<close>.
\<close>

record env =
  COUNTRY_DIR :: string
  github3_login :: "event list \<Rightarrow> string \<Rightarrow> string \<Rightarrow> error + unit"
  gh_repository :: "event list \<Rightarrow> string \<Rightarrow> string \<Rightarrow> error + repo"
  glob_glob :: "event list \<Rightarrow> string \<Rightarrow> error + string list"
  signal_send :: "event list \<Rightarrow> string \<Rightarrow> string \<Rightarrow> string \<Rightarrow> error + unit"
  file_open :: "event list \<Rightarrow> string \<Rightarrow> error + unit"
  file_read :: "event list \<Rightarrow> string \<Rightarrow> error + string"
  repo_tree :: "event list \<Rightarrow> repo \<Rightarrow> string \<Rightarrow> error + hash list"
  repo_update_file ::
    "event list \<Rightarrow> repo \<Rightarrow> string \<Rightarrow> string \<Rightarrow> string \<Rightarrow> string \<Rightarrow> error + unit"
  repo_create_file :: "event list \<Rightarrow> repo \<Rightarrow> string \<Rightarrow> string \<Rightarrow> string \<Rightarrow> error + unit"
  repo_merge :: "event list \<Rightarrow> repo \<Rightarrow> string \<Rightarrow> string \<Rightarrow> error + unit"

text \<open>
  A computation takes the log and returns its outcome with the extended log.
  \<open>perform\<close> makes one call; \<open>bind_io\<close> runs the rest only when the first part returns,
  so that an exception propagates; \<open>finally_io\<close> is the exit of a \<^verbatim>\<open>with\<close> block, which
  closes the file whether the body returns or raises.
\<close>

type_synonym 'a io = "event list \<Rightarrow> (error + 'a) \<times> event list"

definition perform :: "(event list \<Rightarrow> error + 'a) \<Rightarrow> event \<Rightarrow> 'a io" where
  "perform answer ev tr = (answer tr, tr @ [ev])"

definition bind_io :: "'a io \<Rightarrow> ('a \<Rightarrow> 'b io) \<Rightarrow> 'b io" where
  "bind_io m f tr = (case m tr of (Inl e, tr') \<Rightarrow> (Inl e, tr') | (Inr x, tr') \<Rightarrow> f x tr')"

definition finally_io :: "'a io \<Rightarrow> event \<Rightarrow> 'a io" where
  "finally_io m ev tr = (case m tr of (r, tr') \<Rightarrow> (r, tr' @ [ev]))"

section \<open>ResultFileFinder and BasePublisher\<close>

definition results_dir :: "env \<Rightarrow> string" where
  "results_dir env = posixpath_join (COUNTRY_DIR env) [''bakery'']"

text \<open>The loop of \<^verbatim>\<open>get_filenames\<close> over the extensions, extending \<open>filenames\<close>.\<close>

fun glob_each ::
  "env \<Rightarrow> string \<Rightarrow> string \<Rightarrow> string option \<Rightarrow> bool \<Rightarrow> string list \<Rightarrow> string list
     \<Rightarrow> string list io" where
  "glob_each env state search_dir datefilter raw [] filenames tr = (Inr filenames, tr)"
| "glob_each env state search_dir datefilter raw (ext # extensions) filenames tr =
     (let glob_s = build_glob state search_dir ext datefilter raw
      in bind_io (perform (\<lambda>tr. glob_glob env tr glob_s) (Glob glob_s))
           (\<lambda>found. glob_each env state search_dir datefilter raw extensions (filenames @ found))
           tr)"

definition get_filenames ::
  "env \<Rightarrow> string \<Rightarrow> string option \<Rightarrow> bool \<Rightarrow> string option \<Rightarrow> string list io" where
  "get_filenames env state datefilter raw search_dir =
     (let filenames = [];
          extensions = [''.csv'', ''.json''];
          search_dir = (case search_dir of None \<Rightarrow> results_dir env | Some d \<Rightarrow> d)
      in glob_each env state search_dir datefilter raw extensions filenames)"

definition BasePublisher_get_filenames ::
  "env \<Rightarrow> string \<Rightarrow> string option \<Rightarrow> bool \<Rightarrow> string option \<Rightarrow> string list io" where
  "BasePublisher_get_filenames env state datefilter raw search_dir =
     get_filenames env state datefilter raw search_dir"

text \<open>
  \<^verbatim>\<open>BasePublisher.publish\<close>:
  \<^verbatim>\<open>raise NotImplemented("You must implement this method in a subclass")\<close>.
\<close>

definition BasePublisher_publish :: "string \<Rightarrow> string option \<Rightarrow> bool \<Rightarrow> unit io" where
  "BasePublisher_publish state datefilter raw tr =
     (Inl (py_raise_call PyNotImplemented ''You must implement this method in a subclass''), tr)"

section \<open>GitHubPublisher\<close>

text \<open>
  The instance holds \<^verbatim>\<open>_username\<close> and \<^verbatim>\<open>_password\<close>; \<open>cls\<close> is the name of
  \<^verbatim>\<open>self.__class__\<close>, the sender of the signals.
\<close>

record publisher =
  username :: string
  password :: string
  cls :: string

definition get_sha :: "env \<Rightarrow> repo \<Rightarrow> string \<Rightarrow> string \<Rightarrow> string option io" where
  "get_sha env repo path branch =
     bind_io (perform (\<lambda>tr. repo_tree env tr repo branch) (Tree repo branch))
       (\<lambda>tree tr. (Inr (scan_tree tree path), tr))"

text \<open>
  The \<^verbatim>\<open>if sha: ... else: ...\<close> statement of \<^verbatim>\<open>publish_file\<close>: one call of
  \<^verbatim>\<open>repo.update_file\<close> with the sha when the sha is true, one call of
  \<^verbatim>\<open>repo.create_file\<close> otherwise.
\<close>

definition update_or_create ::
  "env \<Rightarrow> repo \<Rightarrow> string \<Rightarrow> string \<Rightarrow> string option \<Rightarrow> unit io" where
  "update_or_create env repo path content sha =
     (if truthy sha then
        (let msg = format_str ''Update file {}'' path
         in perform (\<lambda>tr. repo_update_file env tr repo path msg content (the sha))
              (UpdateFile repo path msg content (the sha)))
      else
        (let msg = format_str ''Create file {}'' path
         in perform (\<lambda>tr. repo_create_file env tr repo path msg content)
              (CreateFile repo path msg content)))"

text \<open>
  The body of the \<^verbatim>\<open>with open(filename, 'r') as f:\<close> block of \<^verbatim>\<open>publish_file\<close>: read
  the content, look the sha up, then update or create the file.
\<close>

definition with_open_body :: "env \<Rightarrow> repo \<Rightarrow> string \<Rightarrow> string \<Rightarrow> string \<Rightarrow> unit io" where
  "with_open_body env repo filename path branch =
     bind_io (perform (\<lambda>tr. file_read env tr filename) (Read filename))
       (\<lambda>content.
     bind_io (get_sha env repo path branch)
       (\<lambda>sha. update_or_create env repo path content sha))"

text \<open>
  \<^verbatim>\<open>GitHubPublisher.publish_file(repo, filename, branch='master')\<close>. The two calls of
  \<^verbatim>\<open>signal(name)\<close> only look the named signals up; the calls that are logged are the
  sending of \<open>pre_publish\<close>, the opening of the file, the body of the \<^verbatim>\<open>with\<close> block
  followed by the closing of the file, and the sending of \<open>post_publish\<close>.
\<close>

definition publish_file :: "env \<Rightarrow> publisher \<Rightarrow> repo \<Rightarrow> string \<Rightarrow> string \<Rightarrow> unit io" where
  "publish_file env self repo filename branch =
     (let pre_publish = ''pre_publish'';
          post_publish = ''post_publish''
      in bind_io (perform (\<lambda>tr. signal_send env tr pre_publish (cls self) filename)
                    (Send pre_publish (cls self) filename))
           (\<lambda>_.
         let path = get_path filename
         in bind_io (perform (\<lambda>tr. file_open env tr filename) (Open filename))
           (\<lambda>f.
         bind_io (finally_io (with_open_body env repo filename path branch) (Close filename))
           (\<lambda>_.
         perform (\<lambda>tr. signal_send env tr post_publish (cls self) filename)
           (Send post_publish (cls self) filename)))))"

text \<open>The \<^verbatim>\<open>for filename in ...\<close> loop of \<^verbatim>\<open>publish\<close>, with the default branch.\<close>

fun publish_files :: "env \<Rightarrow> publisher \<Rightarrow> repo \<Rightarrow> string list \<Rightarrow> unit io" where
  "publish_files env self repo [] tr = (Inr (), tr)"
| "publish_files env self repo (filename # filenames) tr =
     bind_io (publish_file env self repo filename ''master'')
       (\<lambda>_. publish_files env self repo filenames) tr"

definition publish :: "env \<Rightarrow> publisher \<Rightarrow> string \<Rightarrow> string option \<Rightarrow> bool \<Rightarrow> unit io" where
  "publish env self state datefilter raw =
     bind_io (perform (\<lambda>tr. github3_login env tr (username self) (password self))
                (Login (username self) (password self)))
       (\<lambda>gh.
     bind_io (perform (\<lambda>tr. gh_repository env tr ''openelections'' (results_repo_name state))
                (GetRepository ''openelections'' (results_repo_name state)))
       (\<lambda>repo.
     bind_io (BasePublisher_get_filenames env state datefilter raw None)
       (\<lambda>filenames.
     bind_io (publish_files env self repo filenames)
       (\<lambda>_.
     perform (\<lambda>tr. repo_merge env tr repo ''gh-pages'' ''master'')
       (Merge repo ''gh-pages'' ''master'')))))"

section \<open>Example collaborators\<close>

text \<open>
  A host on which every call returns. The results directory holds two clean files of
  \<open>ny\<close>, and the remote tree has two entries for the path of the first one.
\<close>

definition example_tree :: "hash list" where
  "example_tree =
     [\<lparr>hsh_path = ''raw/x.csv'', hsh_sha = ''11''\<rparr>,
      \<lparr>hsh_path = ''clean/1__ny__a.csv'', hsh_sha = ''22''\<rparr>,
      \<lparr>hsh_path = ''clean/1__ny__a.csv'', hsh_sha = ''33''\<rparr>]"

definition example_env :: env where
  "example_env =
     \<lparr>COUNTRY_DIR = ''/us'',
      github3_login = (\<lambda>tr u p. Inr ()),
      gh_repository = (\<lambda>tr owner name. Inr (owner, name)),
      glob_glob = (\<lambda>tr pattern.
        Inr (if pattern = ''/us/bakery/*__ny__*.csv''
             then [''/us/bakery/1__ny__a.csv'', ''/us/bakery/1__ny__b.csv''] else [])),
      signal_send = (\<lambda>tr name sender filename. Inr ()),
      file_open = (\<lambda>tr filename. Inr ()),
      file_read = (\<lambda>tr filename. Inr ''votes''),
      repo_tree = (\<lambda>tr repo branch. Inr example_tree),
      repo_update_file = (\<lambda>tr repo path msg content sha. Inr ()),
      repo_create_file = (\<lambda>tr repo path msg content. Inr ()),
      repo_merge = (\<lambda>tr repo base head. Inr ())\<rparr>"

text \<open>The same host, with a second file that cannot be opened.\<close>

definition unreadable_env :: env where
  "unreadable_env =
     example_env\<lparr>file_open := (\<lambda>tr filename.
       if filename = ''/us/bakery/1__ny__b.csv'' then Inl (CollaboratorError ''IOError'')
       else Inr ())\<rparr>"

text \<open>The same host, with a remote that refuses to create files.\<close>

definition readonly_env :: env where
  "readonly_env =
     example_env\<lparr>repo_create_file := (\<lambda>tr repo path msg content.
       Inl (CollaboratorError ''GitHubError''))\<rparr>"



definition example_self :: publisher where
  "example_self = \<lparr>username = ''user'', password = ''secret'', cls = ''GitHubPublisher''\<rparr>"

section \<open>Facts about the path functions\<close>

lemma rfind_from_absent: "c \<notin> set xs \<Longrightarrow> rfind_from c xs i found = found"
  by (induction xs arbitrary: i found) auto

lemma rfind_from_present:
  "c \<in> set xs \<Longrightarrow>
   \<exists>k. rfind_from c xs i found = i + int k \<and> k < length xs \<and> xs ! k = c \<and> c \<notin> set (drop (Suc k) xs)"
proof (induction xs arbitrary: i found)
  case Nil
  then show ?case by simp
next
  case (Cons x xs)
  show ?case
  proof (cases "c \<in> set xs")
    case True
    from Cons.IH [OF True, of "i + 1" "if x = c then i else found"]
    obtain k where k: "rfind_from c xs (i + 1) (if x = c then i else found) = i + 1 + int k"
      "k < length xs" "xs ! k = c" "c \<notin> set (drop (Suc k) xs)"
      by blast
    then show ?thesis
      by (intro exI [of _ "Suc k"]) simp
  next
    case False
    with Cons.prems have "x = c" by simp
    with False show ?thesis
      by (intro exI [of _ 0]) (simp add: rfind_from_absent)
  qed
qed

lemma basename_no_sep: "CHR ''/'' \<notin> set (basename p)"
proof (cases "CHR ''/'' \<in> set p")
  case True
  from rfind_from_present [OF True, of 0 "- 1"]
  obtain k where "rfind p CHR ''/'' = int k" "CHR ''/'' \<notin> set (drop (Suc k) p)"
    by (auto simp: rfind_def)
  then show ?thesis
    by (simp add: basename_def nat_add_distrib)
next
  case False
  then show ?thesis
    by (simp add: basename_def rfind_def rfind_from_absent)
qed

lemma basename_split:
  "\<exists>d. p = d @ basename p \<and> (d = [] \<or> last d = CHR ''/'')"
proof (cases "CHR ''/'' \<in> set p")
  case True
  from rfind_from_present [OF True, of 0 "- 1"]
  obtain k where k: "rfind p CHR ''/'' = int k" "k < length p" "p ! k = CHR ''/''"
    by (auto simp: rfind_def)
  have "basename p = drop (Suc k) p"
    using k by (simp add: basename_def nat_add_distrib)
  moreover have "last (take (Suc k) p) = CHR ''/''"
    using k by (simp add: take_Suc_conv_app_nth)
  ultimately show ?thesis
    by (intro exI [of _ "take (Suc k) p"]) simp
next
  case False
  then show ?thesis
    by (simp add: basename_def rfind_def rfind_from_absent)
qed

lemma join_prefix_basename:
  "CHR ''/'' \<notin> set b \<Longrightarrow> a \<noteq> [] \<Longrightarrow> \<not> endswith a ''/'' \<Longrightarrow> posixpath_join a [b] = a @ ''/'' @ b"
  by (cases b) (auto simp: startswith_def)

lemma skip_dots_parts: "skip_dots p i d = Some (b, e) \<Longrightarrow> b @ e = p"
proof (induction p i d rule: skip_dots.induct)
  case (1 p filenameIndex dotIndex)
  from "1.prems" show ?case
    by (subst (asm) skip_dots.simps) (auto split: if_splits dest: "1.IH")
qed

lemma splitext_parts: "fst (splitext p) @ snd (splitext p) = p"
  by (auto simp: splitext_def Let_def skip_dots_parts split: option.splits)

lemma get_path_eq:
  "get_path f =
     (if endswith (fst (splitext f)) ''raw'' then ''raw/'' @ basename f
      else ''clean/'' @ basename f)"
proof -
  have "posixpath_join ''raw'' [basename f] = ''raw'' @ ''/'' @ basename f"
    by (rule join_prefix_basename) (simp_all add: basename_no_sep endswith_def)
  moreover have "posixpath_join ''clean'' [basename f] = ''clean'' @ ''/'' @ basename f"
    by (rule join_prefix_basename) (simp_all add: basename_no_sep endswith_def)
  ultimately show ?thesis
    by (simp add: get_path_def RAW_PREFIX_def CLEAN_PREFIX_def split: prod.splits)
qed

lemma posixpath_join_ends: "\<exists>pre. posixpath_join a [b] = pre @ b"
  by auto

lemma format_str_whole: "format_str ''{}'' arg = arg"
  by simp

lemma rfind_from_append:
  "rfind_from c (xs @ ys) i found = rfind_from c ys (i + int (length xs)) (rfind_from c xs i found)"
proof (induction xs arbitrary: i found)
  case Nil
  then show ?case by simp
next
  case (Cons x xs)
  have "rfind_from c (xs @ ys) (i + 1) (if x = c then i else found) =
      rfind_from c ys (i + 1 + int (length xs))
        (rfind_from c xs (i + 1) (if x = c then i else found))"
    by (rule Cons.IH)
  then show ?case by (simp add: ac_simps)
qed

lemma rfind_last: "c \<notin> set ys \<Longrightarrow> rfind (xs @ c # ys) c = int (length xs)"
  by (simp add: rfind_def rfind_from_append rfind_from_absent)

lemma rfind_suffix_absent: "c \<notin> set ys \<Longrightarrow> rfind (xs @ ys) c = rfind xs c"
  by (simp add: rfind_def rfind_from_append rfind_from_absent)

lemma rfind_range: "rfind p c = - 1 \<or> (\<exists>k < length p. rfind p c = int k \<and> p ! k = c)"
proof (cases "c \<in> set p")
  case True
  from rfind_from_present [OF True, of 0 "- 1"] show ?thesis
    by (auto simp: rfind_def)
next
  case False
  then show ?thesis by (simp add: rfind_def rfind_from_absent)
qed

lemma rfind_sep_dir:
  assumes "d = [] \<or> last d = CHR ''/''" and "CHR ''/'' \<notin> set n"
  shows "rfind (d @ n) CHR ''/'' = int (length d) - 1"
proof (cases "d = []")
  case True
  with assms show ?thesis by (simp add: rfind_def rfind_from_absent)
next
  case False
  with assms obtain b where b: "d = b @ [CHR ''/'']"
    by (metis append_butlast_last_id)
  have "rfind (d @ n) CHR ''/'' = rfind (b @ CHR ''/'' # n) CHR ''/''"
    by (simp add: b)
  also have "\<dots> = int (length b)"
    using assms(2) by (rule rfind_last)
  finally show ?thesis by (simp add: b)
qed

lemma basename_dir:
  assumes "d = [] \<or> last d = CHR ''/''" and "CHR ''/'' \<notin> set n"
  shows "basename (d @ n) = n"
  using rfind_sep_dir [OF assms] by (simp add: basename_def)

lemma take1_drop: "take (Suc 0) (drop k p) = [c] \<longleftrightarrow> k < length p \<and> p ! k = c"
proof (cases "k < length p")
  case True
  then have "drop k p = p ! k # drop (Suc k) p"
    by (simp add: Cons_nth_drop_Suc)
  with True show ?thesis by simp
next
  case False
  then show ?thesis by simp
qed

lemma skip_dots_found:
  "0 \<le> i \<Longrightarrow> i \<le> int k \<Longrightarrow> int k < j \<Longrightarrow> k < length p \<Longrightarrow> p ! k \<noteq> CHR ''.'' \<Longrightarrow>
   skip_dots p i j = Some (take (nat j) p, drop (nat j) p)"
proof (induction p i j rule: skip_dots.induct)
  case (1 p filenameIndex dotIndex)
  show ?case
  proof (cases "take 1 (drop (nat filenameIndex) p) = ''.''")
    case False
    with "1.prems" show ?thesis
      by (subst skip_dots.simps) simp
  next
    case True
    then have "p ! nat filenameIndex = CHR ''.''"
      by (simp add: take1_drop)
    with "1.prems" have "nat filenameIndex \<noteq> k" by auto
    with "1.prems" have le: "filenameIndex + 1 \<le> int k" by linarith
    from "1.prems" have lt: "filenameIndex < dotIndex" by linarith
    have "skip_dots p (filenameIndex + 1) dotIndex
        = Some (take (nat dotIndex) p, drop (nat dotIndex) p)"
      using lt True le "1.prems" by (intro "1.IH") simp_all
    with lt True show ?thesis
      by (subst skip_dots.simps) simp
  qed
qed

lemma skip_dots_all_dots:
  "0 \<le> i \<Longrightarrow> (\<And>k. i \<le> int k \<Longrightarrow> int k < j \<Longrightarrow> k < length p \<and> p ! k = CHR ''.'') \<Longrightarrow>
   skip_dots p i j = None"
proof (induction p i j rule: skip_dots.induct)
  case (1 p filenameIndex dotIndex)
  show ?case
  proof (cases "filenameIndex < dotIndex")
    case False
    then show ?thesis by (subst skip_dots.simps) simp
  next
    case True
    with "1.prems" have "nat filenameIndex < length p \<and> p ! nat filenameIndex = CHR ''.''"
      by (intro "1.prems"(2)) simp_all
    then have dot: "take 1 (drop (nat filenameIndex) p) = ''.''"
      by (simp add: take1_drop)
    have "skip_dots p (filenameIndex + 1) dotIndex = None"
      using True dot "1.prems" by (intro "1.IH") simp_all
    with True dot show ?thesis
      by (subst skip_dots.simps) simp
  qed
qed

lemma splitext_with_ext:
  assumes d: "d = [] \<or> last d = CHR ''/''"
    and stem: "CHR ''/'' \<notin> set stem" "\<exists>c \<in> set stem. c \<noteq> CHR ''.''"
    and ext: "CHR ''/'' \<notin> set ext" "CHR ''.'' \<notin> set ext"
  shows "splitext (d @ stem @ ''.'' @ ext) = (d @ stem, ''.'' @ ext)"
proof -
  let ?p = "d @ stem @ ''.'' @ ext"
  have sep: "rfind ?p CHR ''/'' = int (length d) - 1"
    using stem(1) ext(1) by (intro rfind_sep_dir [OF d]) simp
  have "?p = (d @ stem) @ CHR ''.'' # ext" by simp
  with ext(2) have dot: "rfind ?p CHR ''.'' = int (length d + length stem)"
    by (metis length_append rfind_last)
  from stem(2) obtain k where k: "k < length stem" "stem ! k \<noteq> CHR ''.''"
    by (auto simp: in_set_conv_nth)
  have "skip_dots ?p (int (length d)) (int (length d + length stem))
      = Some (take (nat (int (length d + length stem))) ?p,
              drop (nat (int (length d + length stem))) ?p)"
    using k by (intro skip_dots_found [where k = "length d + k"]) (simp_all add: nth_append)
  then have "skip_dots ?p (int (length d)) (int (length d + length stem))
      = Some (d @ stem, ''.'' @ ext)"
    by simp
  then show ?thesis
    unfolding splitext_def sep dot by (simp add: Let_def)
qed

lemma splitext_without_ext:
  assumes d: "d = [] \<or> last d = CHR ''/''"
    and dots: "set dots \<subseteq> {CHR ''.''}"
    and rest: "CHR ''/'' \<notin> set rest" "CHR ''.'' \<notin> set rest"
  shows "splitext (d @ dots @ rest) = (d @ dots @ rest, [])"
proof -
  let ?p = "d @ dots @ rest"
  from dots have nosep: "CHR ''/'' \<notin> set dots" by auto
  have sep: "rfind ?p CHR ''/'' = int (length d) - 1"
    using nosep rest(1) by (intro rfind_sep_dir [OF d]) simp
  show ?thesis
  proof (cases "dots = []")
    case True
    with rest(2) have dot: "rfind ?p CHR ''.'' = rfind d CHR ''.''"
      by (simp add: rfind_suffix_absent)
    have "rfind d CHR ''.'' \<le> int (length d) - 1"
      using rfind_range [of d "CHR ''.''"] by auto
    then show ?thesis
      unfolding splitext_def sep dot by (simp add: Let_def)
  next
    case False
    with dots have l: "last dots = CHR ''.''"
      using last_in_set by fastforce
    with False obtain b where b: "dots = b @ [CHR ''.'']"
      by (metis append_butlast_last_id)
    have "rfind ?p CHR ''.'' = rfind ((d @ b) @ CHR ''.'' # rest) CHR ''.''"
      by (simp add: b)
    also have "\<dots> = int (length (d @ b))"
      using rest(2) by (rule rfind_last)
    finally have dot: "rfind ?p CHR ''.'' = int (length d) + int (length dots) - 1"
      by (simp add: b)
    have "skip_dots ?p (int (length d)) (int (length d) + int (length dots) - 1) = None"
    proof (rule skip_dots_all_dots)
      show "0 \<le> int (length d)" by simp
    next
      fix k
      assume "int (length d) \<le> int k" and "int k < int (length d) + int (length dots) - 1"
      then have k: "length d \<le> k" "k - length d < length dots" by linarith+
      then have "?p ! k = dots ! (k - length d)"
        by (simp add: nth_append)
      moreover from k dots have "dots ! (k - length d) = CHR ''.''"
        using nth_mem by fastforce
      ultimately show "k < length ?p \<and> ?p ! k = CHR ''.''"
        using k by simp
    qed
    then show ?thesis
      unfolding splitext_def sep dot by (simp add: Let_def)
  qed
qed

lemma endswith_iff: "endswith t suf \<longleftrightarrow> (\<exists>xs. t = xs @ suf)"
proof
  assume "endswith t suf"
  then have "t = take (length t - length suf) t @ suf"
    by (metis append_take_drop_id endswith_def)
  then show "\<exists>xs. t = xs @ suf" ..
next
  assume "\<exists>xs. t = xs @ suf"
  then show "endswith t suf" by (auto simp: endswith_def)
qed

lemma endswith_after_dir:
  assumes "d = [] \<or> last d = CHR ''/''"
  shows "endswith (d @ s) ''raw'' = endswith s ''raw''"
proof
  assume "endswith (d @ s) ''raw''"
  then obtain xs where "d @ s = xs @ ''raw''"
    by (auto simp: endswith_iff)
  then consider us where "d = xs @ us" "us @ s = ''raw''"
    | us where "d @ us = xs" "s = us @ ''raw''"
    by (auto simp: append_eq_append_conv2)
  then show "endswith s ''raw''"
  proof cases
    case 1
    show ?thesis
    proof (cases "us = []")
      case True
      with 1 show ?thesis by (simp add: endswith_def)
    next
      case False
      with 1 have "last d = last us" "d \<noteq> []" by simp_all
      moreover from False have "last us \<in> set us" by simp
      moreover from 1 have "set us \<subseteq> set ''raw''"
        by (metis set_append sup_ge1)
      ultimately show ?thesis using assms by auto
    qed
  next
    case 2
    then show ?thesis by (auto simp: endswith_iff)
  qed
next
  assume "endswith s ''raw''"
  then show "endswith (d @ s) ''raw''"
    by (auto simp: endswith_iff)
qed


lemma leading_dots:
  "\<exists>dots r. n = dots @ r \<and> set dots \<subseteq> {CHR ''.''} \<and> (r = [] \<or> hd r \<noteq> CHR ''.'')"
proof (intro exI conjI)
  show "n = takeWhile (\<lambda>c. c = CHR ''.'') n @ dropWhile (\<lambda>c. c = CHR ''.'') n"
    by simp
  show "set (takeWhile (\<lambda>c. c = CHR ''.'') n) \<subseteq> {CHR ''.''}"
    by (auto dest: set_takeWhileD)
  show "dropWhile (\<lambda>c. c = CHR ''.'') n = [] \<or> hd (dropWhile (\<lambda>c. c = CHR ''.'') n) \<noteq> CHR ''.''"
    using hd_dropWhile [of "\<lambda>c. c = CHR ''.''" n] by blast
qed

lemma name_shapes:
  "(\<exists>stem ext. n = stem @ ''.'' @ ext \<and> (\<exists>c \<in> set stem. c \<noteq> CHR ''.'') \<and> CHR ''.'' \<notin> set ext)
   \<or> (\<exists>dots rest. n = dots @ rest \<and> set dots \<subseteq> {CHR ''.''} \<and> CHR ''.'' \<notin> set rest)"
proof -
  from leading_dots [of n] obtain dots r
    where n: "n = dots @ r" and dots: "set dots \<subseteq> {CHR ''.''}"
      and r: "r = [] \<or> hd r \<noteq> CHR ''.''"
    by blast
  show ?thesis
  proof (cases "CHR ''.'' \<in> set r")
    case False
    with n dots show ?thesis by blast
  next
    case True
    from split_list_last [OF True] obtain r1 ext
      where r1: "r = r1 @ CHR ''.'' # ext" and ext: "CHR ''.'' \<notin> set ext"
      by blast
    from True have "r \<noteq> []" by auto
    with r have hd: "hd r \<noteq> CHR ''.''" by blast
    have "r1 \<noteq> []"
    proof
      assume "r1 = []"
      with r1 have "hd r = CHR ''.''" by simp
      with hd show False by contradiction
    qed
    with r1 hd have "hd r1 \<noteq> CHR ''.''" "hd r1 \<in> set (dots @ r1)"
      by simp_all
    then have stem: "\<exists>c \<in> set (dots @ r1). c \<noteq> CHR ''.''" by blast
    have "n = (dots @ r1) @ ''.'' @ ext"
      by (simp add: n r1)
    with stem ext show ?thesis by blast
  qed
qed

section \<open>The remote path of a file\<close>

text \<open>
  Claim C1. For every filename \<open>f\<close>, \<open>get_path f\<close> is \<open>raw/\<close> followed by the basename of
  \<open>f\<close> when the base that \<open>splitext\<close> returns ends with \<open>raw\<close>, and \<open>clean/\<close> followed by
  the basename otherwise. The base and the extension make up \<open>f\<close>; the basename has no
  separator, and \<open>f\<close> is the basename after a directory part that is empty or ends with
  the separator, so the directory is dropped and the one separator of the result is the
  forward slash put between the prefix and the basename.

  What \<open>splitext\<close> returns is fixed by the filename. With a directory part \<open>d\<close> (empty, or
  ending with the separator) and a name \<open>stem.ext\<close>, where the stem has a character other
  than the dot and \<open>ext\<close> has no dot, the base is \<open>d\<close> followed by the stem and the
  extension is \<open>.ext\<close>; the path is then \<open>raw/stem.ext\<close> when the stem ends with \<open>raw\<close>
  and \<open>clean/stem.ext\<close> otherwise. With a name that is dots followed by characters other
  than the dot, there is no extension and the whole name is tested. Every filename has
  one of the two forms. So \<open>/us/bakery/20140101__ny__precinct__raw.csv\<close> goes to
  \<open>raw/\<close> and \<open>/us/bakery/20140101__ny__precinct.csv\<close> to \<open>clean/\<close>.
\<close>

theorem get_path_raw_or_clean:
  "get_path f =
     (if endswith (fst (splitext f)) ''raw'' then ''raw/'' @ basename f
      else ''clean/'' @ basename f)
   \<and> fst (splitext f) @ snd (splitext f) = f
   \<and> CHR ''/'' \<notin> set (basename f)
   \<and> (\<exists>d. f = d @ basename f \<and> (d = [] \<or> last d = CHR ''/''))
   \<and> ((d = [] \<or> last d = CHR ''/'') \<and> CHR ''/'' \<notin> set stem
        \<and> (\<exists>c \<in> set stem. c \<noteq> CHR ''.'') \<and> CHR ''/'' \<notin> set ext \<and> CHR ''.'' \<notin> set ext \<longrightarrow>
        splitext (d @ stem @ ''.'' @ ext) = (d @ stem, ''.'' @ ext)
        \<and> basename (d @ stem @ ''.'' @ ext) = stem @ ''.'' @ ext
        \<and> get_path (d @ stem @ ''.'' @ ext) =
            (if endswith stem ''raw'' then ''raw/'' else ''clean/'') @ stem @ ''.'' @ ext)
   \<and> ((d = [] \<or> last d = CHR ''/'') \<and> set dots \<subseteq> {CHR ''.''}
        \<and> CHR ''/'' \<notin> set rest \<and> CHR ''.'' \<notin> set rest \<longrightarrow>
        splitext (d @ dots @ rest) = (d @ dots @ rest, [])
        \<and> basename (d @ dots @ rest) = dots @ rest
        \<and> get_path (d @ dots @ rest) =
            (if endswith (dots @ rest) ''raw'' then ''raw/'' else ''clean/'') @ dots @ rest)
   \<and> ((\<exists>d stem ext. f = d @ stem @ ''.'' @ ext \<and> (d = [] \<or> last d = CHR ''/'')
          \<and> CHR ''/'' \<notin> set stem \<and> (\<exists>c \<in> set stem. c \<noteq> CHR ''.'')
          \<and> CHR ''/'' \<notin> set ext \<and> CHR ''.'' \<notin> set ext)
      \<or> (\<exists>d dots rest. f = d @ dots @ rest \<and> (d = [] \<or> last d = CHR ''/'')
          \<and> set dots \<subseteq> {CHR ''.''} \<and> CHR ''/'' \<notin> set rest \<and> CHR ''.'' \<notin> set rest))
   \<and> get_path ''/us/bakery/20140101__ny__precinct__raw.csv''
       = ''raw/20140101__ny__precinct__raw.csv''
   \<and> get_path ''/us/bakery/20140101__ny__precinct.csv'' = ''clean/20140101__ny__precinct.csv''"
proof -
  have with_ext: "splitext (d @ stem @ ''.'' @ ext) = (d @ stem, ''.'' @ ext)
        \<and> basename (d @ stem @ ''.'' @ ext) = stem @ ''.'' @ ext
        \<and> get_path (d @ stem @ ''.'' @ ext) =
            (if endswith stem ''raw'' then ''raw/'' else ''clean/'') @ stem @ ''.'' @ ext"
    if h: "(d = [] \<or> last d = CHR ''/'') \<and> CHR ''/'' \<notin> set stem
        \<and> (\<exists>c \<in> set stem. c \<noteq> CHR ''.'') \<and> CHR ''/'' \<notin> set ext \<and> CHR ''.'' \<notin> set ext"
    for d stem ext
  proof -
    from h have d: "d = [] \<or> last d = CHR ''/''" by blast
    from h have s: "splitext (d @ stem @ ''.'' @ ext) = (d @ stem, ''.'' @ ext)"
      by (intro splitext_with_ext) blast+
    from h have b: "basename (d @ stem @ ''.'' @ ext) = stem @ ''.'' @ ext"
      by (intro basename_dir) auto
    from s b show ?thesis
      by (simp add: get_path_eq endswith_after_dir [OF d])
  qed
  have without_ext: "splitext (d @ dots @ rest) = (d @ dots @ rest, [])
        \<and> basename (d @ dots @ rest) = dots @ rest
        \<and> get_path (d @ dots @ rest) =
            (if endswith (dots @ rest) ''raw'' then ''raw/'' else ''clean/'') @ dots @ rest"
    if h: "(d = [] \<or> last d = CHR ''/'') \<and> set dots \<subseteq> {CHR ''.''}
        \<and> CHR ''/'' \<notin> set rest \<and> CHR ''.'' \<notin> set rest"
    for d dots rest
  proof -
    from h have d: "d = [] \<or> last d = CHR ''/''" by blast
    from h have s: "splitext (d @ dots @ rest) = (d @ dots @ rest, [])"
      by (intro splitext_without_ext) blast+
    from h have b: "basename (d @ dots @ rest) = dots @ rest"
      by (intro basename_dir) auto
    from s b show ?thesis
      using endswith_after_dir [OF d, of "dots @ rest"] by (simp add: get_path_eq)
  qed
  have shapes: "(\<exists>d stem ext. f = d @ stem @ ''.'' @ ext \<and> (d = [] \<or> last d = CHR ''/'')
          \<and> CHR ''/'' \<notin> set stem \<and> (\<exists>c \<in> set stem. c \<noteq> CHR ''.'')
          \<and> CHR ''/'' \<notin> set ext \<and> CHR ''.'' \<notin> set ext)
      \<or> (\<exists>d dots rest. f = d @ dots @ rest \<and> (d = [] \<or> last d = CHR ''/'')
          \<and> set dots \<subseteq> {CHR ''.''} \<and> CHR ''/'' \<notin> set rest \<and> CHR ''.'' \<notin> set rest)"
  proof -
    from basename_split [of f] obtain d
      where f: "f = d @ basename f" and d: "d = [] \<or> last d = CHR ''/''" by blast
    have nosep: "CHR ''/'' \<notin> set (basename f)" by (rule basename_no_sep)
    from name_shapes [of "basename f"] show ?thesis
    proof (elim disjE exE conjE)
      fix stem ext
      assume n: "basename f = stem @ ''.'' @ ext"
        and stem: "\<exists>c \<in> set stem. c \<noteq> CHR ''.''" and ext: "CHR ''.'' \<notin> set ext"
      from nosep have "CHR ''/'' \<notin> set stem" "CHR ''/'' \<notin> set ext"
        unfolding n by simp_all
      with f [unfolded n] d stem ext
      have "f = d @ stem @ ''.'' @ ext \<and> (d = [] \<or> last d = CHR ''/'')
          \<and> CHR ''/'' \<notin> set stem \<and> (\<exists>c \<in> set stem. c \<noteq> CHR ''.'')
          \<and> CHR ''/'' \<notin> set ext \<and> CHR ''.'' \<notin> set ext"
        by (intro conjI)
      then show ?thesis
        by (intro disjI1 exI)
    next
      fix dots rest
      assume n: "basename f = dots @ rest"
        and dots: "set dots \<subseteq> {CHR ''.''}" and rest: "CHR ''.'' \<notin> set rest"
      from nosep have "CHR ''/'' \<notin> set rest"
        unfolding n by simp
      with f [unfolded n] d dots rest
      have "f = d @ dots @ rest \<and> (d = [] \<or> last d = CHR ''/'')
          \<and> set dots \<subseteq> {CHR ''.''} \<and> CHR ''/'' \<notin> set rest \<and> CHR ''.'' \<notin> set rest"
        by (intro conjI)
      then show ?thesis
        by (intro disjI2 exI)
    qed
  qed
  have raw: "get_path ''/us/bakery/20140101__ny__precinct__raw.csv''
       = ''raw/20140101__ny__precinct__raw.csv''"
    by (simp add: get_path_eq splitext_def rfind_def skip_dots.simps basename_def endswith_def)
  have clean: "get_path ''/us/bakery/20140101__ny__precinct.csv''
       = ''clean/20140101__ny__precinct.csv''"
    by (simp add: get_path_eq splitext_def rfind_def skip_dots.simps basename_def endswith_def)
  show ?thesis
    by (intro conjI;
        (rule get_path_eq splitext_parts basename_no_sep basename_split shapes raw clean
         | (rule impI, erule with_ext) | (rule impI, erule without_ext)))
qed

theorem get_path_raw_or_clean_witness:
  "splitext ''/us/bakery/20140101__ny__precinct__raw.csv''
     = (''/us/bakery/20140101__ny__precinct__raw'', ''.csv'')
   \<and> get_path ''/us/bakery/20140101__ny__precinct__raw.csv''
     = ''raw/20140101__ny__precinct__raw.csv''
   \<and> splitext ''/us/bakery/20140101__ny__precinct.csv''
     = (''/us/bakery/20140101__ny__precinct'', ''.csv'')
   \<and> get_path ''/us/bakery/20140101__ny__precinct.csv'' = ''clean/20140101__ny__precinct.csv''
   \<and> splitext ''/us/bakery/.hidden_raw'' = (''/us/bakery/.hidden_raw'', [])
   \<and> get_path ''/us/bakery/.hidden_raw'' = ''raw/.hidden_raw''"
proof -
  have e: "endswith ''20140101__ny__precinct__raw'' ''raw''"
    "\<not> endswith ''20140101__ny__precinct'' ''raw''" "endswith ''.hidden_raw'' ''raw''"
    by (simp_all add: endswith_def)
  have raw: "(''/us/bakery/'' = [] \<or> last ''/us/bakery/'' = CHR ''/'')
      \<and> CHR ''/'' \<notin> set ''20140101__ny__precinct__raw''
      \<and> (\<exists>c \<in> set ''20140101__ny__precinct__raw''. c \<noteq> CHR ''.'')
      \<and> CHR ''/'' \<notin> set ''csv'' \<and> CHR ''.'' \<notin> set ''csv''"
    by simp
  have clean: "(''/us/bakery/'' = [] \<or> last ''/us/bakery/'' = CHR ''/'')
      \<and> CHR ''/'' \<notin> set ''20140101__ny__precinct''
      \<and> (\<exists>c \<in> set ''20140101__ny__precinct''. c \<noteq> CHR ''.'')
      \<and> CHR ''/'' \<notin> set ''csv'' \<and> CHR ''.'' \<notin> set ''csv''"
    by simp
  have hidden: "(''/us/bakery/'' = [] \<or> last ''/us/bakery/'' = CHR ''/'')
      \<and> set ''.'' \<subseteq> {CHR ''.''}
      \<and> CHR ''/'' \<notin> set ''hidden_raw'' \<and> CHR ''.'' \<notin> set ''hidden_raw''"
    by simp
  note a = get_path_raw_or_clean [where d = "''/us/bakery/''"
      and stem = "''20140101__ny__precinct__raw''" and ext = "''csv''",
      THEN conjunct2, THEN conjunct2, THEN conjunct2, THEN conjunct2, THEN conjunct1,
      THEN mp, OF raw]
  note b = get_path_raw_or_clean [where d = "''/us/bakery/''"
      and stem = "''20140101__ny__precinct''" and ext = "''csv''",
      THEN conjunct2, THEN conjunct2, THEN conjunct2, THEN conjunct2, THEN conjunct1,
      THEN mp, OF clean]
  note c = get_path_raw_or_clean [where d = "''/us/bakery/''"
      and dots = "''.''" and rest = "''hidden_raw''",
      THEN conjunct2, THEN conjunct2, THEN conjunct2, THEN conjunct2, THEN conjunct2,
      THEN conjunct1, THEN mp, OF hidden]
  from a b c e show ?thesis by simp
qed



section \<open>The glob pattern\<close>

text \<open>
  Claim C2. The pathname of \<open>build_glob\<close> is the search directory joined with the
  pattern, and it ends with the pattern. The pattern is the date segment (a bare wildcard
  without a filter; the filter, followed by a wildcard exactly when it is shorter than 6
  characters), two underscores, the state, two underscores, a wildcard, then two underscores
  and \<open>raw\<close> only when \<open>raw\<close> is set, and the extension with no separator before it.
\<close>

theorem build_glob_pattern:
  "build_glob state search_dir ext datefilter raw =
     posixpath_join search_dir
       [(case datefilter of
           None \<Rightarrow> ''*''
         | Some d \<Rightarrow> if length d < 6 then d @ ''*'' else d)
        @ ''__'' @ state @ ''__'' @ ''*'' @ (if raw then ''__'' @ ''raw'' else []) @ ext]
   \<and> (\<exists>dir. build_glob state search_dir ext datefilter raw =
        dir @
        (case datefilter of
           None \<Rightarrow> ''*''
         | Some d \<Rightarrow> if length d < 6 then d @ ''*'' else d)
        @ ''__'' @ state @ ''__'' @ ''*'' @ (if raw then ''__'' @ ''raw'' else []) @ ext)"
proof -
  let ?seg = "case datefilter of None \<Rightarrow> ''*'' | Some d \<Rightarrow> if length d < 6 then d @ ''*'' else d"
  let ?pat = "?seg @ ''__'' @ state @ ''__'' @ ''*'' @ (if raw then ''__'' @ ''raw'' else []) @ ext"
  have eq: "build_glob state search_dir ext datefilter raw = posixpath_join search_dir [?pat]"
  proof (cases datefilter)
    case None
    then show ?thesis
      by (simp add: build_glob_def RAW_PREFIX_def del: posixpath_join.simps)
  next
    case (Some d)
    then show ?thesis
      by (cases "d = []") (simp_all add: build_glob_def RAW_PREFIX_def del: posixpath_join.simps)
  qed
  from posixpath_join_ends [of search_dir ?pat]
  obtain dir where "posixpath_join search_dir [?pat] = dir @ ?pat" ..
  with eq show ?thesis by auto
qed

section \<open>The sha of a remote file\<close>

lemma scan_tree_None: "scan_tree tree p = None \<longleftrightarrow> (\<forall>h \<in> set tree. hsh_path h \<noteq> p)"
  by (induction tree) auto

lemma scan_tree_Some:
  "scan_tree tree p = Some s \<longleftrightarrow>
     (\<exists>before h after. tree = before @ h # after \<and> (\<forall>x \<in> set before. hsh_path x \<noteq> p)
        \<and> hsh_path h = p \<and> hsh_sha h = s)"
proof (induction tree)
  case Nil
  then show ?case by simp
next
  case (Cons a tree)
  show ?case
  proof (cases "hsh_path a = p")
    case True
    have "(\<exists>before h after. a # tree = before @ h # after \<and> (\<forall>x \<in> set before. hsh_path x \<noteq> p)
        \<and> hsh_path h = p \<and> hsh_sha h = s) \<longleftrightarrow> hsh_sha a = s" (is "?L \<longleftrightarrow> ?R")
    proof
      assume ?L
      then obtain before h after where *: "a # tree = before @ h # after"
        "\<forall>x \<in> set before. hsh_path x \<noteq> p" "hsh_path h = p" "hsh_sha h = s" by blast
      show ?R
      proof (cases before)
        case Nil
        with * show ?thesis by simp
      next
        case (Cons b bs)
        with * True show ?thesis by auto
      qed
    next
      assume ?R
      with True show ?L by (intro exI [of _ "[]"] exI [of _ a] exI [of _ tree]) simp
    qed
    with True show ?thesis by simp
  next
    case False
    have "(\<exists>before h after. a # tree = before @ h # after \<and> (\<forall>x \<in> set before. hsh_path x \<noteq> p)
        \<and> hsh_path h = p \<and> hsh_sha h = s) \<longleftrightarrow>
        (\<exists>before h after. tree = before @ h # after \<and> (\<forall>x \<in> set before. hsh_path x \<noteq> p)
        \<and> hsh_path h = p \<and> hsh_sha h = s)" (is "?L \<longleftrightarrow> ?R")
    proof
      assume ?L
      then obtain before h after where *: "a # tree = before @ h # after"
        "\<forall>x \<in> set before. hsh_path x \<noteq> p" "hsh_path h = p" "hsh_sha h = s" by blast
      show ?R
      proof (cases before)
        case Nil
        with * False show ?thesis by simp
      next
        case (Cons b bs)
        with * show ?thesis by (intro exI [of _ bs] exI [of _ h] exI [of _ after]) simp
      qed
    next
      assume ?R
      then obtain before h after where *: "tree = before @ h # after"
        "\<forall>x \<in> set before. hsh_path x \<noteq> p" "hsh_path h = p" "hsh_sha h = s" by blast
      with False show ?L by (intro exI [of _ "a # before"] exI [of _ h] exI [of _ after]) simp
    qed
    with False Cons.IH show ?thesis by simp
  qed
qed

section \<open>The name of the results repository\<close>

lemma lower_char_idem: "lower_char (lower_char c) = lower_char c"
  by (simp add: lower_char_def Let_def)

lemma same_letter_lower: "same_letter a b \<Longrightarrow> lower_char a = lower_char b"
proof -
  assume "same_letter a b"
  then consider "a = b"
    | "65 \<le> (of_char a :: nat)" "(of_char a :: nat) \<le> 90" "(of_char b :: nat) = of_char a + 32"
    | "65 \<le> (of_char b :: nat)" "(of_char b :: nat) \<le> 90" "(of_char a :: nat) = of_char b + 32"
    by (auto simp: same_letter_def Let_def)
  then show ?thesis
  proof cases
    case 1
    then show ?thesis by simp
  next
    case 2
    have "b = char_of (of_char b :: nat)" by simp
    with 2 show ?thesis by (simp add: lower_char_def Let_def)
  next
    case 3
    have "a = char_of (of_char a :: nat)" by simp
    with 3 show ?thesis by (simp add: lower_char_def Let_def)
  qed
qed

lemma same_modulo_case_lower: "same_modulo_case s t \<Longrightarrow> str_lower s = str_lower t"
  unfolding same_modulo_case_def str_lower_def
  by (induction s t rule: list_all2_induct) (auto dest: same_letter_lower)

lemma results_repo_name_eq: "results_repo_name state = ''openelections-results-'' @ str_lower state"
  by (simp add: results_repo_name_def)

text \<open>
  Claim C8. \<open>results_repo_name j\<close> is \<open>openelections-results-\<close> followed by the
  lower-cased \<open>j\<close>. It is a function of \<open>j\<close> alone, with no log of calls. Lowering the
  argument first changes nothing, two codes that differ in the case of their letters only
  give the same name, and so do \<open>NY\<close> and \<open>ny\<close>.
\<close>

theorem results_repo_name_casing:
  "results_repo_name j = ''openelections-results-'' @ str_lower j
   \<and> results_repo_name (str_lower j) = results_repo_name j
   \<and> (same_modulo_case j j' \<longrightarrow> results_repo_name j = results_repo_name j')
   \<and> results_repo_name ''NY'' = results_repo_name ''ny''"
proof -
  have "str_lower (str_lower j) = str_lower j"
    by (simp add: str_lower_def lower_char_idem)
  moreover have "str_lower ''NY'' = str_lower ''ny''"
    by code_simp
  ultimately show ?thesis
    by (auto simp: results_repo_name_eq dest: same_modulo_case_lower)
qed

theorem results_repo_name_casing_witness:
  "same_modulo_case ''Ny'' ''nY'' \<and> results_repo_name ''Ny'' = results_repo_name ''nY''
   \<and> results_repo_name ''Ny'' = ''openelections-results-ny''"
proof -
  have s: "same_modulo_case ''Ny'' ''nY''"
    by (simp add: same_modulo_case_def same_letter_def)
  have l: "str_lower ''Ny'' = ''ny''"
    by code_simp
  from results_repo_name_casing [of "''Ny''" "''nY''"]
  have a: "results_repo_name ''Ny'' = ''openelections-results-'' @ str_lower ''Ny''"
    and b: "same_modulo_case ''Ny'' ''nY'' \<longrightarrow> results_repo_name ''Ny'' = results_repo_name ''nY''"
    by blast+
  from b s have c: "results_repo_name ''Ny'' = results_repo_name ''nY''" by blast
  from a l have d: "results_repo_name ''Ny'' = ''openelections-results-ny''" by simp
  from s c d show ?thesis by blast
qed

section \<open>Facts about the computations\<close>

lemma get_sha_run:
  "get_sha env repo p branch tr =
     (case repo_tree env tr repo branch of
        Inl e \<Rightarrow> (Inl e, tr @ [Tree repo branch])
      | Inr tree \<Rightarrow> (Inr (scan_tree tree p), tr @ [Tree repo branch]))"
  by (simp add: get_sha_def bind_io_def perform_def split: sum.splits)

lemma get_sha_returns:
  "get_sha env repo p branch tr = (Inr sha, tr') \<Longrightarrow>
   \<exists>tree. repo_tree env tr repo branch = Inr tree \<and> sha = scan_tree tree p
     \<and> tr' = tr @ [Tree repo branch]"
  by (auto simp: get_sha_run split: sum.splits)

lemma update_or_create_run:
  "update_or_create env repo path content sha tr =
     (if truthy sha
      then (repo_update_file env tr repo path (''Update file '' @ path) content (the sha),
            tr @ [UpdateFile repo path (''Update file '' @ path) content (the sha)])
      else (repo_create_file env tr repo path (''Create file '' @ path) content,
            tr @ [CreateFile repo path (''Create file '' @ path) content]))"
  by (simp add: update_or_create_def perform_def Let_def)

lemma update_or_create_log:
  "update_or_create env repo path content sha tr = (r, tr') \<Longrightarrow> \<exists>w. is_write w \<and> tr' = tr @ [w]"
  by (auto simp: update_or_create_run split: if_splits)

lemma is_write_only: "is_write w \<Longrightarrow> \<not> is_merge w \<and> \<not> is_send name w"
  by (cases w) simp_all

lemma publish_file_unfold:
  "publish_file env self repo filename branch tr =
     (let pre = Send ''pre_publish'' (cls self) filename;
          post = Send ''post_publish'' (cls self) filename;
          path = get_path filename
      in case signal_send env tr ''pre_publish'' (cls self) filename of
           Inl e \<Rightarrow> (Inl e, tr @ [pre])
         | Inr u \<Rightarrow>
        (case file_open env (tr @ [pre]) filename of
           Inl e \<Rightarrow> (Inl e, tr @ [pre, Open filename])
         | Inr f \<Rightarrow>
        (case file_read env (tr @ [pre, Open filename]) filename of
           Inl e \<Rightarrow> (Inl e, tr @ [pre, Open filename, Read filename, Close filename])
         | Inr content \<Rightarrow>
        (case repo_tree env (tr @ [pre, Open filename, Read filename]) repo branch of
           Inl e \<Rightarrow>
             (Inl e, tr @ [pre, Open filename, Read filename, Tree repo branch, Close filename])
         | Inr tree \<Rightarrow>
        (case update_or_create env repo path content (scan_tree tree path)
                (tr @ [pre, Open filename, Read filename, Tree repo branch]) of
           (Inl e, tr5) \<Rightarrow> (Inl e, tr5 @ [Close filename])
         | (Inr u, tr5) \<Rightarrow>
             (signal_send env (tr5 @ [Close filename]) ''post_publish'' (cls self) filename,
              tr5 @ [Close filename, post]))))))"
  by (simp add: publish_file_def with_open_body_def bind_io_def perform_def finally_io_def
      get_sha_run Let_def split: sum.splits prod.splits)

lemma publish_file_starts:
  "\<exists>rest. snd (publish_file env self repo filename branch tr)
       = tr @ Send ''pre_publish'' (cls self) filename # rest
     \<and> (\<forall>ev \<in> set rest. \<not> is_merge ev \<and> \<not> is_send ''pre_publish'' ev)"
  by (auto simp: publish_file_unfold Let_def split: sum.splits prod.splits
      dest!: update_or_create_log dest: is_write_only)

lemma publish_file_returns:
  "fst (publish_file env self repo filename branch tr) = Inr u \<Longrightarrow>
   \<exists>w. is_write w \<and> snd (publish_file env self repo filename branch tr) =
     tr @ [Send ''pre_publish'' (cls self) filename, Open filename, Read filename,
           Tree repo branch, w, Close filename, Send ''post_publish'' (cls self) filename]"
  by (auto simp: publish_file_unfold Let_def split: sum.splits prod.splits
      dest!: update_or_create_log)

lemma publish_file_merges:
  "filter is_merge (snd (publish_file env self repo filename branch tr)) = filter is_merge tr"
proof -
  from publish_file_starts [of env self repo filename branch tr]
  obtain rest where "snd (publish_file env self repo filename branch tr)
       = tr @ Send ''pre_publish'' (cls self) filename # rest"
     "\<forall>ev \<in> set rest. \<not> is_merge ev" by blast
  then show ?thesis by simp
qed

lemma publish_file_pre_sends:
  "filter (is_send ''pre_publish'') (snd (publish_file env self repo filename branch tr))
     = filter (is_send ''pre_publish'') tr @ [Send ''pre_publish'' (cls self) filename]"
proof -
  from publish_file_starts [of env self repo filename branch tr]
  obtain rest where "snd (publish_file env self repo filename branch tr)
       = tr @ Send ''pre_publish'' (cls self) filename # rest"
     "\<forall>ev \<in> set rest. \<not> is_send ''pre_publish'' ev" by blast
  then show ?thesis by simp
qed

lemma publish_files_append:
  "publish_files env self repo (xs @ ys) tr =
     bind_io (publish_files env self repo xs) (\<lambda>_. publish_files env self repo ys) tr"
  by (induction xs arbitrary: tr) (auto simp: bind_io_def split: sum.splits prod.splits)

lemma publish_files_merges:
  "filter is_merge (snd (publish_files env self repo filenames tr)) = filter is_merge tr"
proof (induction filenames arbitrary: tr)
  case Nil
  then show ?case by simp
next
  case (Cons filename filenames)
  obtain r tr' where run: "publish_file env self repo filename ''master'' tr = (r, tr')"
    by (cases "publish_file env self repo filename ''master'' tr")
  with publish_file_merges [of env self repo filename "''master''" tr]
  have m: "filter is_merge tr' = filter is_merge tr" by simp
  show ?case
  proof (cases r)
    case (Inl e)
    with run m show ?thesis by (simp add: bind_io_def)
  next
    case (Inr u)
    with run m Cons.IH [of tr'] show ?thesis by (simp add: bind_io_def)
  qed
qed

lemma publish_files_pre_sends:
  "publish_files env self repo filenames tr = (Inr u, tr') \<Longrightarrow>
   filter (is_send ''pre_publish'') tr'
     = filter (is_send ''pre_publish'') tr @ map (Send ''pre_publish'' (cls self)) filenames"
proof (induction filenames arbitrary: tr)
  case Nil
  then show ?case by simp
next
  case (Cons filename filenames)
  obtain r tr1 where run: "publish_file env self repo filename ''master'' tr = (r, tr1)"
    by (cases "publish_file env self repo filename ''master'' tr")
  with publish_file_pre_sends [of env self repo filename "''master''" tr]
  have p: "filter (is_send ''pre_publish'') tr1
     = filter (is_send ''pre_publish'') tr @ [Send ''pre_publish'' (cls self) filename]" by simp
  show ?case
  proof (cases r)
    case (Inl e)
    with run Cons.prems show ?thesis by (simp add: bind_io_def)
  next
    case (Inr v)
    with run Cons.prems have "publish_files env self repo filenames tr1 = (Inr u, tr')"
      by (simp add: bind_io_def)
    from Cons.IH [OF this] p show ?thesis by simp
  qed
qed

lemma glob_each_two:
  "glob_each env state dir datefilter raw [e1, e2] [] tr =
     (case glob_glob env tr (build_glob state dir e1 datefilter raw) of
        Inl e \<Rightarrow> (Inl e, tr @ [Glob (build_glob state dir e1 datefilter raw)])
      | Inr xs \<Rightarrow>
          (case glob_glob env (tr @ [Glob (build_glob state dir e1 datefilter raw)])
                  (build_glob state dir e2 datefilter raw) of
             Inl e \<Rightarrow> (Inl e, tr @ [Glob (build_glob state dir e1 datefilter raw),
                                    Glob (build_glob state dir e2 datefilter raw)])
           | Inr ys \<Rightarrow> (Inr (xs @ ys), tr @ [Glob (build_glob state dir e1 datefilter raw),
                                    Glob (build_glob state dir e2 datefilter raw)])))"
  by (simp add: bind_io_def perform_def Let_def split: sum.splits)

lemma glob_each_log:
  "\<exists>gs. snd (glob_each env state dir datefilter raw extensions filenames tr) = tr @ map Glob gs"
proof (induction extensions arbitrary: filenames tr)
  case Nil
  show ?case by (simp add: exI [of _ "[]"])
next
  case (Cons ext extensions)
  let ?g = "build_glob state dir ext datefilter raw"
  show ?case
  proof (cases "glob_glob env tr ?g")
    case (Inl e)
    then show ?thesis
      by (intro exI [of _ "[?g]"]) (simp add: bind_io_def perform_def)
  next
    case (Inr found)
    from Cons.IH [of "filenames @ found" "tr @ [Glob ?g]"]
    obtain gs where "snd (glob_each env state dir datefilter raw extensions (filenames @ found)
        (tr @ [Glob ?g])) = (tr @ [Glob ?g]) @ map Glob gs" ..
    with Inr show ?thesis
      by (intro exI [of _ "?g # gs"]) (simp add: bind_io_def perform_def)
  qed
qed

lemma get_filenames_log:
  "\<exists>gs. snd (get_filenames env state datefilter raw search_dir tr) = tr @ map Glob gs"
  unfolding get_filenames_def Let_def by (rule glob_each_log)

lemma filter_map_Glob: "filter is_merge (map Glob gs) = [] \<and> filter (is_send name) (map Glob gs) = []"
  by (induction gs) simp_all

section \<open>The example collaborators at work\<close>

lemma example_results_dir: "results_dir example_env = ''/us/bakery''"
  by (simp add: results_dir_def example_env_def startswith_def endswith_def)

lemma example_glob_csv: "build_glob ''ny'' ''/us/bakery'' ''.csv'' None False = ''/us/bakery/*__ny__*.csv''"
  by (simp add: build_glob_def startswith_def endswith_def)

lemma example_glob_json: "build_glob ''ny'' ''/us/bakery'' ''.json'' None False = ''/us/bakery/*__ny__*.json''"
  by (simp add: build_glob_def startswith_def endswith_def)

lemma example_repo_name: "results_repo_name ''ny'' = ''openelections-results-ny''"
proof -
  have "str_lower ''ny'' = ''ny''" by code_simp
  then show ?thesis by (simp add: results_repo_name_eq)
qed

lemma example_path_a: "get_path ''/us/bakery/1__ny__a.csv'' = ''clean/1__ny__a.csv''"
  by (simp add: get_path_eq splitext_def rfind_def skip_dots.simps basename_def endswith_def)

lemma example_path_b: "get_path ''/us/bakery/1__ny__b.csv'' = ''clean/1__ny__b.csv''"
  by (simp add: get_path_eq splitext_def rfind_def skip_dots.simps basename_def endswith_def)

lemma example_sha_a: "scan_tree example_tree ''clean/1__ny__a.csv'' = Some ''22''"
  by (simp add: example_tree_def)

lemma example_sha_b: "scan_tree example_tree ''clean/1__ny__b.csv'' = None"
  by (simp add: example_tree_def)

lemma example_filenames:
  "BasePublisher_get_filenames example_env ''ny'' None False None tr =
     (Inr [''/us/bakery/1__ny__a.csv'', ''/us/bakery/1__ny__b.csv''],
      tr @ [Glob ''/us/bakery/*__ny__*.csv'', Glob ''/us/bakery/*__ny__*.json''])"
proof -
  have "BasePublisher_get_filenames example_env ''ny'' None False None tr =
      glob_each example_env ''ny'' ''/us/bakery'' None False [''.csv'', ''.json''] [] tr"
    by (simp add: BasePublisher_get_filenames_def get_filenames_def example_results_dir
        del: glob_each.simps)
  also have "\<dots> = (Inr [''/us/bakery/1__ny__a.csv'', ''/us/bakery/1__ny__b.csv''],
      tr @ [Glob ''/us/bakery/*__ny__*.csv'', Glob ''/us/bakery/*__ny__*.json''])"
    by (simp add: glob_each_two example_glob_csv example_glob_json example_env_def
        del: glob_each.simps)
  finally show ?thesis .
qed

lemma unreadable_filenames:
  "BasePublisher_get_filenames unreadable_env ''ny'' None False None tr =
     (Inr [''/us/bakery/1__ny__a.csv'', ''/us/bakery/1__ny__b.csv''],
      tr @ [Glob ''/us/bakery/*__ny__*.csv'', Glob ''/us/bakery/*__ny__*.json''])"
proof -
  have "results_dir unreadable_env = ''/us/bakery''"
    by (simp add: results_dir_def unreadable_env_def example_env_def startswith_def endswith_def)
  then have "BasePublisher_get_filenames unreadable_env ''ny'' None False None tr =
      glob_each unreadable_env ''ny'' ''/us/bakery'' None False [''.csv'', ''.json''] [] tr"
    by (simp add: BasePublisher_get_filenames_def get_filenames_def del: glob_each.simps)
  also have "\<dots> = (Inr [''/us/bakery/1__ny__a.csv'', ''/us/bakery/1__ny__b.csv''],
      tr @ [Glob ''/us/bakery/*__ny__*.csv'', Glob ''/us/bakery/*__ny__*.json''])"
    by (simp add: glob_each_two example_glob_csv example_glob_json unreadable_env_def
        example_env_def del: glob_each.simps)
  finally show ?thesis .
qed

lemma example_publish_a:
  "publish_file example_env example_self (''openelections'', ''openelections-results-ny'')
     ''/us/bakery/1__ny__a.csv'' ''master'' tr =
   (Inr (), tr @
     [Send ''pre_publish'' ''GitHubPublisher'' ''/us/bakery/1__ny__a.csv'',
      Open ''/us/bakery/1__ny__a.csv'', Read ''/us/bakery/1__ny__a.csv'',
      Tree (''openelections'', ''openelections-results-ny'') ''master'',
      UpdateFile (''openelections'', ''openelections-results-ny'') ''clean/1__ny__a.csv''
        ''Update file clean/1__ny__a.csv'' ''votes'' ''22'',
      Close ''/us/bakery/1__ny__a.csv'',
      Send ''post_publish'' ''GitHubPublisher'' ''/us/bakery/1__ny__a.csv''])"
  by (simp add: publish_file_unfold update_or_create_run example_env_def example_self_def
      example_path_a example_sha_a Let_def)

lemma example_publish_b:
  "publish_file example_env example_self (''openelections'', ''openelections-results-ny'')
     ''/us/bakery/1__ny__b.csv'' ''master'' tr =
   (Inr (), tr @
     [Send ''pre_publish'' ''GitHubPublisher'' ''/us/bakery/1__ny__b.csv'',
      Open ''/us/bakery/1__ny__b.csv'', Read ''/us/bakery/1__ny__b.csv'',
      Tree (''openelections'', ''openelections-results-ny'') ''master'',
      CreateFile (''openelections'', ''openelections-results-ny'') ''clean/1__ny__b.csv''
        ''Create file clean/1__ny__b.csv'' ''votes'',
      Close ''/us/bakery/1__ny__b.csv'',
      Send ''post_publish'' ''GitHubPublisher'' ''/us/bakery/1__ny__b.csv''])"
  by (simp add: publish_file_unfold update_or_create_run example_env_def example_self_def
      example_path_b example_sha_b Let_def)

lemma unreadable_publish_a:
  "publish_file unreadable_env example_self (''openelections'', ''openelections-results-ny'')
     ''/us/bakery/1__ny__a.csv'' ''master'' tr =
   (Inr (), tr @
     [Send ''pre_publish'' ''GitHubPublisher'' ''/us/bakery/1__ny__a.csv'',
      Open ''/us/bakery/1__ny__a.csv'', Read ''/us/bakery/1__ny__a.csv'',
      Tree (''openelections'', ''openelections-results-ny'') ''master'',
      UpdateFile (''openelections'', ''openelections-results-ny'') ''clean/1__ny__a.csv''
        ''Update file clean/1__ny__a.csv'' ''votes'' ''22'',
      Close ''/us/bakery/1__ny__a.csv'',
      Send ''post_publish'' ''GitHubPublisher'' ''/us/bakery/1__ny__a.csv''])"
  by (simp add: publish_file_unfold update_or_create_run unreadable_env_def example_env_def
      example_self_def example_path_a example_sha_a Let_def)

lemma unreadable_publish_b:
  "publish_file unreadable_env example_self (''openelections'', ''openelections-results-ny'')
     ''/us/bakery/1__ny__b.csv'' ''master'' tr =
   (Inl (CollaboratorError ''IOError''), tr @
     [Send ''pre_publish'' ''GitHubPublisher'' ''/us/bakery/1__ny__b.csv'',
      Open ''/us/bakery/1__ny__b.csv''])"
  by (simp add: publish_file_unfold unreadable_env_def example_env_def example_self_def Let_def)

lemma readonly_publish_b:
  "publish_file readonly_env example_self (''openelections'', ''openelections-results-ny'')
     ''/us/bakery/1__ny__b.csv'' ''master'' tr =
   (Inl (CollaboratorError ''GitHubError''), tr @
     [Send ''pre_publish'' ''GitHubPublisher'' ''/us/bakery/1__ny__b.csv'',
      Open ''/us/bakery/1__ny__b.csv'', Read ''/us/bakery/1__ny__b.csv'',
      Tree (''openelections'', ''openelections-results-ny'') ''master'',
      CreateFile (''openelections'', ''openelections-results-ny'') ''clean/1__ny__b.csv''
        ''Create file clean/1__ny__b.csv'' ''votes'',
      Close ''/us/bakery/1__ny__b.csv''])"
  by (simp add: publish_file_unfold update_or_create_run readonly_env_def example_env_def
      example_self_def example_path_b example_sha_b Let_def)

section \<open>Looking up the sha\<close>

text \<open>
  Claim C3. When the remote answers with a tree, \<open>get_sha\<close> returns \<open>None\<close> exactly when
  no entry of the tree has the path, and it returns a sha \<open>s\<close> exactly when the first entry
  with the path (no entry before it has the path) has the sha \<open>s\<close>; it does not raise.
\<close>

theorem get_sha_first_match:
  assumes "repo_tree env tr repo branch = Inr tree"
  shows "(fst (get_sha env repo p branch tr) = Inr None \<longleftrightarrow> (\<forall>h \<in> set tree. hsh_path h \<noteq> p))
    \<and> (fst (get_sha env repo p branch tr) = Inr (Some s) \<longleftrightarrow>
         (\<exists>before h after. tree = before @ h # after \<and> (\<forall>x \<in> set before. hsh_path x \<noteq> p)
            \<and> hsh_path h = p \<and> hsh_sha h = s))
    \<and> (\<exists>r. fst (get_sha env repo p branch tr) = Inr r)"
  using assms scan_tree_None [of tree p] scan_tree_Some [of tree p s]
  by (simp add: get_sha_run)

theorem get_sha_first_match_witness:
  "repo_tree example_env [] (''openelections'', ''openelections-results-ny'') ''master''
     = Inr example_tree
   \<and> fst (get_sha example_env (''openelections'', ''openelections-results-ny'')
        ''clean/1__ny__a.csv'' ''master'' []) = Inr (Some ''22'')
   \<and> fst (get_sha example_env (''openelections'', ''openelections-results-ny'')
        ''clean/1__ny__b.csv'' ''master'' []) = Inr None"
proof -
  let ?repo = "(''openelections'', ''openelections-results-ny'')"
  have t: "repo_tree example_env [] ?repo ''master'' = Inr example_tree"
    by (simp add: example_env_def)
  have "example_tree =
      [\<lparr>hsh_path = ''raw/x.csv'', hsh_sha = ''11''\<rparr>]
      @ \<lparr>hsh_path = ''clean/1__ny__a.csv'', hsh_sha = ''22''\<rparr>
      # [\<lparr>hsh_path = ''clean/1__ny__a.csv'', hsh_sha = ''33''\<rparr>]"
    by (simp add: example_tree_def)
  then have "\<exists>before h after. example_tree = before @ h # after
      \<and> (\<forall>x \<in> set before. hsh_path x \<noteq> ''clean/1__ny__a.csv'')
      \<and> hsh_path h = ''clean/1__ny__a.csv'' \<and> hsh_sha h = ''22''"
    by (intro exI [of _ "[\<lparr>hsh_path = ''raw/x.csv'', hsh_sha = ''11''\<rparr>]"]
        exI [of _ "\<lparr>hsh_path = ''clean/1__ny__a.csv'', hsh_sha = ''22''\<rparr>"]
        exI [of _ "[\<lparr>hsh_path = ''clean/1__ny__a.csv'', hsh_sha = ''33''\<rparr>]"]) simp
  with get_sha_first_match [OF t, of "''clean/1__ny__a.csv''" "''22''"]
  have a: "fst (get_sha example_env ?repo ''clean/1__ny__a.csv'' ''master'' []) = Inr (Some ''22'')"
    by blast
  have "\<forall>h \<in> set example_tree. hsh_path h \<noteq> ''clean/1__ny__b.csv''"
    by (simp add: example_tree_def)
  with get_sha_first_match [OF t, of "''clean/1__ny__b.csv''" "''22''"]
  have b: "fst (get_sha example_env ?repo ''clean/1__ny__b.csv'' ''master'' []) = Inr None"
    by blast
  from t a b show ?thesis by blast
qed

section \<open>The abstract publisher\<close>

text \<open>
  Claim C6. \<open>BasePublisher_publish\<close> raises for all arguments and leaves the log as it
  is, but the exception is the \<open>TypeError\<close> of calling the constant
  \<^verbatim>\<open>NotImplemented\<close>, which is not callable; it is no \<open>NotImplementedError\<close>, whatever
  the message.
\<close>

theorem BasePublisher_publish_raises_TypeError:
  "BasePublisher_publish state datefilter raw tr =
     (Inl (TypeError ([CHR 0x27] @ ''NotImplementedType'' @ [CHR 0x27] @ '' object is not callable'')), tr)
   \<and> fst (BasePublisher_publish state datefilter raw tr) \<noteq> Inl (NotImplementedError msg)"
  by (simp add: BasePublisher_publish_def)

section \<open>Finding the files\<close>




section \<open>Publishing one file\<close>

text \<open>
  Claim C5. When the notification, the opening and the reading of the file return and
  \<open>get_sha\<close> returns \<open>sha\<close>, \<open>publish_file\<close> adds exactly one remote write to the log:
  \<^verbatim>\<open>update_file\<close> with the message \<open>Update file <path>\<close> and the sha when \<open>sha\<close> is a
  non-empty sha, and \<^verbatim>\<open>create_file\<close> with the message \<open>Create file <path>\<close> otherwise,
  where the path is \<open>get_path filename\<close>.
\<close>

theorem publish_file_one_write:
  assumes pre: "signal_send env tr ''pre_publish'' (cls self) filename = Inr ()"
    and op: "file_open env (tr @ [Send ''pre_publish'' (cls self) filename]) filename = Inr ()"
    and rd: "file_read env (tr @ [Send ''pre_publish'' (cls self) filename, Open filename]) filename
               = Inr content"
    and sha: "get_sha env repo (get_path filename) branch
                (tr @ [Send ''pre_publish'' (cls self) filename, Open filename, Read filename])
               = (Inr sha, tr4)"
  shows "filter is_write (snd (publish_file env self repo filename branch tr)) =
      filter is_write tr @
      [case sha of
         None \<Rightarrow>
           CreateFile repo (get_path filename) (''Create file '' @ get_path filename) content
       | Some s \<Rightarrow>
           if s = []
           then CreateFile repo (get_path filename) (''Create file '' @ get_path filename) content
           else UpdateFile repo (get_path filename) (''Update file '' @ get_path filename) content s]"
proof -
  from get_sha_returns [OF sha] obtain tree
    where tree: "repo_tree env
        (tr @ [Send ''pre_publish'' (cls self) filename, Open filename, Read filename])
        repo branch = Inr tree"
      and s: "scan_tree tree (get_path filename) = sha"
    by blast
  show ?thesis
  proof (cases sha)
    case None
    with pre op rd tree s show ?thesis
      by (simp add: publish_file_unfold update_or_create_run Let_def split: sum.splits)
  next
    case (Some x)
    with pre op rd tree s show ?thesis
      by (cases "x = []")
        (simp_all add: publish_file_unfold update_or_create_run Let_def split: sum.splits)
  qed
qed

theorem publish_file_one_write_witness:
  "signal_send example_env [] ''pre_publish'' (cls example_self) ''/us/bakery/1__ny__a.csv'' = Inr ()
   \<and> file_open example_env
        [Send ''pre_publish'' (cls example_self) ''/us/bakery/1__ny__a.csv'']
        ''/us/bakery/1__ny__a.csv'' = Inr ()
   \<and> file_read example_env
        [Send ''pre_publish'' (cls example_self) ''/us/bakery/1__ny__a.csv'',
         Open ''/us/bakery/1__ny__a.csv'']
        ''/us/bakery/1__ny__a.csv'' = Inr ''votes''
   \<and> filter is_write
        (snd (publish_file example_env example_self (''openelections'', ''openelections-results-ny'')
           ''/us/bakery/1__ny__a.csv'' ''master'' []))
      = [UpdateFile (''openelections'', ''openelections-results-ny'') ''clean/1__ny__a.csv''
           ''Update file clean/1__ny__a.csv'' ''votes'' ''22'']"
proof -
  let ?f = "''/us/bakery/1__ny__a.csv''"
  let ?repo = "(''openelections'', ''openelections-results-ny'')"
  have pre: "signal_send example_env [] ''pre_publish'' (cls example_self) ?f = Inr ()"
    by (simp add: example_env_def)
  have op: "file_open example_env ([] @ [Send ''pre_publish'' (cls example_self) ?f]) ?f = Inr ()"
    by (simp add: example_env_def)
  have rd: "file_read example_env ([] @ [Send ''pre_publish'' (cls example_self) ?f, Open ?f]) ?f
      = Inr ''votes''"
    by (simp add: example_env_def)
  have sha: "get_sha example_env ?repo (get_path ?f) ''master''
      ([] @ [Send ''pre_publish'' (cls example_self) ?f, Open ?f, Read ?f])
      = (Inr (Some ''22''),
         [Send ''pre_publish'' (cls example_self) ?f, Open ?f, Read ?f, Tree ?repo ''master''])"
    by (simp add: get_sha_run example_env_def example_path_a example_sha_a)
  from publish_file_one_write [OF pre op rd sha]
  have "filter is_write (snd (publish_file example_env example_self ?repo ?f ''master'' []))
      = [UpdateFile ?repo ''clean/1__ny__a.csv'' ''Update file clean/1__ny__a.csv'' ''votes'' ''22'']"
    by (simp add: example_path_a)
  with pre op rd show ?thesis by simp
qed

text \<open>
  Claim C9. The first call that \<open>publish_file\<close> logs is the \<open>pre_publish\<close> notification
  with the filename, before any other call. When the notification, the opening and the
  reading of the file and \<open>get_sha\<close> have returned, the remote write is the next call,
  \<^verbatim>\<open>create_file\<close> or \<^verbatim>\<open>update_file\<close> by the sha. When the write returns, the file is
  closed and the \<open>post_publish\<close> notification with the filename is sent as the last call,
  and its outcome is the outcome of \<open>publish_file\<close>. When the write raises, the exception
  propagates and the log ends with the write and the closing of the file: no
  \<open>post_publish\<close> notification is sent. Whenever \<open>publish_file\<close> returns, its log ends
  with a write, the closing and the \<open>post_publish\<close> notification.
\<close>

theorem publish_file_notifications:
  "(\<exists>rest. snd (publish_file env self repo filename branch tr)
       = tr @ Send ''pre_publish'' (cls self) filename # rest)
   \<and> (fst (publish_file env self repo filename branch tr) = Inr u \<longrightarrow>
        (\<exists>w. is_write w \<and> snd (publish_file env self repo filename branch tr) =
           tr @ [Send ''pre_publish'' (cls self) filename, Open filename, Read filename,
                 Tree repo branch, w, Close filename,
                 Send ''post_publish'' (cls self) filename]))
   \<and> (signal_send env tr ''pre_publish'' (cls self) filename = Inr ()
      \<and> file_open env (tr @ [Send ''pre_publish'' (cls self) filename]) filename = Inr ()
      \<and> file_read env (tr @ [Send ''pre_publish'' (cls self) filename, Open filename]) filename
          = Inr content
      \<and> get_sha env repo (get_path filename) branch
          (tr @ [Send ''pre_publish'' (cls self) filename, Open filename, Read filename])
          = (Inr sha, tr4)
      \<and> update_or_create env repo (get_path filename) content sha tr4 = (Inl e, tr5)
      \<longrightarrow> publish_file env self repo filename branch tr = (Inl e, tr5 @ [Close filename])
        \<and> (\<exists>w. is_write w \<and> tr5 =
              tr @ [Send ''pre_publish'' (cls self) filename, Open filename, Read filename,
                    Tree repo branch, w]))
   \<and> (signal_send env tr ''pre_publish'' (cls self) filename = Inr ()
      \<and> file_open env (tr @ [Send ''pre_publish'' (cls self) filename]) filename = Inr ()
      \<and> file_read env (tr @ [Send ''pre_publish'' (cls self) filename, Open filename]) filename
          = Inr content
      \<and> get_sha env repo (get_path filename) branch
          (tr @ [Send ''pre_publish'' (cls self) filename, Open filename, Read filename])
          = (Inr sha, tr4)
      \<and> update_or_create env repo (get_path filename) content sha tr4 = (Inr v, tr5)
      \<longrightarrow> publish_file env self repo filename branch tr =
            (signal_send env (tr5 @ [Close filename]) ''post_publish'' (cls self) filename,
             tr5 @ [Close filename, Send ''post_publish'' (cls self) filename])
        \<and> tr5 =
            tr @ [Send ''pre_publish'' (cls self) filename, Open filename, Read filename,
                  Tree repo branch,
                  case sha of
                    None \<Rightarrow>
                      CreateFile repo (get_path filename) (''Create file '' @ get_path filename)
                        content
                  | Some s \<Rightarrow>
                      if s = []
                      then CreateFile repo (get_path filename)
                             (''Create file '' @ get_path filename) content
                      else UpdateFile repo (get_path filename)
                             (''Update file '' @ get_path filename) content s])"
proof -
  let ?pre = "Send ''pre_publish'' (cls self) filename"
  have first: "\<exists>rest. snd (publish_file env self repo filename branch tr) = tr @ ?pre # rest"
    using publish_file_starts [of env self repo filename branch tr] by blast
  have returned: "\<exists>w. is_write w \<and> snd (publish_file env self repo filename branch tr) =
           tr @ [?pre, Open filename, Read filename, Tree repo branch, w, Close filename,
                 Send ''post_publish'' (cls self) filename]"
    if "fst (publish_file env self repo filename branch tr) = Inr u"
    using that by (rule publish_file_returns)
  have at_write: "publish_file env self repo filename branch tr =
        (case r of
           Inl e \<Rightarrow> (Inl e, tr5 @ [Close filename])
         | Inr v \<Rightarrow>
             (signal_send env (tr5 @ [Close filename]) ''post_publish'' (cls self) filename,
              tr5 @ [Close filename, Send ''post_publish'' (cls self) filename]))
      \<and> tr4 = tr @ [?pre, Open filename, Read filename, Tree repo branch]
      \<and> tr5 = tr4 @
          [case sha of
             None \<Rightarrow>
               CreateFile repo (get_path filename) (''Create file '' @ get_path filename) content
           | Some s \<Rightarrow>
               if s = []
               then CreateFile repo (get_path filename) (''Create file '' @ get_path filename)
                      content
               else UpdateFile repo (get_path filename) (''Update file '' @ get_path filename)
                      content s]"
    if h: "signal_send env tr ''pre_publish'' (cls self) filename = Inr ()
      \<and> file_open env (tr @ [?pre]) filename = Inr ()
      \<and> file_read env (tr @ [?pre, Open filename]) filename = Inr content
      \<and> get_sha env repo (get_path filename) branch (tr @ [?pre, Open filename, Read filename])
          = (Inr sha, tr4)
      \<and> update_or_create env repo (get_path filename) content sha tr4 = (r, tr5)"
    for r tr5
  proof -
    from h have sha: "get_sha env repo (get_path filename) branch
          (tr @ [?pre, Open filename, Read filename]) = (Inr sha, tr4)"
      and w: "update_or_create env repo (get_path filename) content sha tr4 = (r, tr5)"
      by simp_all
    from get_sha_returns [OF sha] obtain tree
      where tree: "repo_tree env (tr @ [?pre, Open filename, Read filename]) repo branch = Inr tree"
        and s: "scan_tree tree (get_path filename) = sha"
        and tr4: "tr4 = tr @ [?pre, Open filename, Read filename, Tree repo branch]"
      by auto
    from h tree s tr4 w
    have run: "publish_file env self repo filename branch tr =
        (case r of
           Inl e \<Rightarrow> (Inl e, tr5 @ [Close filename])
         | Inr v \<Rightarrow>
             (signal_send env (tr5 @ [Close filename]) ''post_publish'' (cls self) filename,
              tr5 @ [Close filename, Send ''post_publish'' (cls self) filename]))"
      by (simp add: publish_file_unfold Let_def split: sum.splits)
    have log: "tr5 = tr4 @
          [case sha of
             None \<Rightarrow>
               CreateFile repo (get_path filename) (''Create file '' @ get_path filename) content
           | Some s \<Rightarrow>
               if s = []
               then CreateFile repo (get_path filename) (''Create file '' @ get_path filename)
                      content
               else UpdateFile repo (get_path filename) (''Update file '' @ get_path filename)
                      content s]"
    proof (cases sha)
      case None
      with w show ?thesis by (simp add: update_or_create_run)
    next
      case (Some x)
      with w show ?thesis by (cases "x = []") (simp_all add: update_or_create_run)
    qed
    from run tr4 log show ?thesis by blast
  qed
  show ?thesis
  proof (intro conjI impI)
    show "\<exists>rest. snd (publish_file env self repo filename branch tr) = tr @ ?pre # rest"
      by (rule first)
  next
    assume "fst (publish_file env self repo filename branch tr) = Inr u"
    then show "\<exists>w. is_write w \<and> snd (publish_file env self repo filename branch tr) =
           tr @ [?pre, Open filename, Read filename, Tree repo branch, w, Close filename,
                 Send ''post_publish'' (cls self) filename]"
      by (rule returned)
  next
    assume h: "signal_send env tr ''pre_publish'' (cls self) filename = Inr ()
      \<and> file_open env (tr @ [?pre]) filename = Inr ()
      \<and> file_read env (tr @ [?pre, Open filename]) filename = Inr content
      \<and> get_sha env repo (get_path filename) branch (tr @ [?pre, Open filename, Read filename])
          = (Inr sha, tr4)
      \<and> update_or_create env repo (get_path filename) content sha tr4 = (Inl e, tr5)"
    from at_write [OF h]
    show "publish_file env self repo filename branch tr = (Inl e, tr5 @ [Close filename])"
      by simp
    from at_write [OF h]
    have "tr5 = tr @ [?pre, Open filename, Read filename, Tree repo branch] @
          [case sha of
             None \<Rightarrow>
               CreateFile repo (get_path filename) (''Create file '' @ get_path filename) content
           | Some s \<Rightarrow>
               if s = []
               then CreateFile repo (get_path filename) (''Create file '' @ get_path filename)
                      content
               else UpdateFile repo (get_path filename) (''Update file '' @ get_path filename)
                      content s]"
      by simp
    then show "\<exists>w. is_write w \<and> tr5 =
              tr @ [?pre, Open filename, Read filename, Tree repo branch, w]"
      by (cases sha) (auto split: if_splits)
  next
    assume h: "signal_send env tr ''pre_publish'' (cls self) filename = Inr ()
      \<and> file_open env (tr @ [?pre]) filename = Inr ()
      \<and> file_read env (tr @ [?pre, Open filename]) filename = Inr content
      \<and> get_sha env repo (get_path filename) branch (tr @ [?pre, Open filename, Read filename])
          = (Inr sha, tr4)
      \<and> update_or_create env repo (get_path filename) content sha tr4 = (Inr v, tr5)"
    from at_write [OF h]
    show "publish_file env self repo filename branch tr =
            (signal_send env (tr5 @ [Close filename]) ''post_publish'' (cls self) filename,
             tr5 @ [Close filename, Send ''post_publish'' (cls self) filename])"
      by simp
    from at_write [OF h]
    show "tr5 =
            tr @ [?pre, Open filename, Read filename, Tree repo branch,
                  case sha of
                    None \<Rightarrow>
                      CreateFile repo (get_path filename) (''Create file '' @ get_path filename)
                        content
                  | Some s \<Rightarrow>
                      if s = []
                      then CreateFile repo (get_path filename)
                             (''Create file '' @ get_path filename) content
                      else UpdateFile repo (get_path filename)
                             (''Update file '' @ get_path filename) content s]"
      by simp
  qed
qed


theorem publish_file_notifications_witness:
  "publish_file example_env example_self (''openelections'', ''openelections-results-ny'')
     ''/us/bakery/1__ny__a.csv'' ''master'' [] =
   (Inr (),
    [Send ''pre_publish'' ''GitHubPublisher'' ''/us/bakery/1__ny__a.csv'',
     Open ''/us/bakery/1__ny__a.csv'', Read ''/us/bakery/1__ny__a.csv'',
     Tree (''openelections'', ''openelections-results-ny'') ''master'',
     UpdateFile (''openelections'', ''openelections-results-ny'') ''clean/1__ny__a.csv''
       ''Update file clean/1__ny__a.csv'' ''votes'' ''22'',
     Close ''/us/bakery/1__ny__a.csv'',
     Send ''post_publish'' ''GitHubPublisher'' ''/us/bakery/1__ny__a.csv''])
   \<and> publish_file example_env example_self (''openelections'', ''openelections-results-ny'')
     ''/us/bakery/1__ny__b.csv'' ''master'' [] =
   (Inr (),
    [Send ''pre_publish'' ''GitHubPublisher'' ''/us/bakery/1__ny__b.csv'',
     Open ''/us/bakery/1__ny__b.csv'', Read ''/us/bakery/1__ny__b.csv'',
     Tree (''openelections'', ''openelections-results-ny'') ''master'',
     CreateFile (''openelections'', ''openelections-results-ny'') ''clean/1__ny__b.csv''
       ''Create file clean/1__ny__b.csv'' ''votes'',
     Close ''/us/bakery/1__ny__b.csv'',
     Send ''post_publish'' ''GitHubPublisher'' ''/us/bakery/1__ny__b.csv''])
   \<and> publish_file readonly_env example_self (''openelections'', ''openelections-results-ny'')
        ''/us/bakery/1__ny__b.csv'' ''master'' []
       = (Inl (CollaboratorError ''GitHubError''),
          [Send ''pre_publish'' ''GitHubPublisher'' ''/us/bakery/1__ny__b.csv'',
           Open ''/us/bakery/1__ny__b.csv'', Read ''/us/bakery/1__ny__b.csv'',
           Tree (''openelections'', ''openelections-results-ny'') ''master'',
           CreateFile (''openelections'', ''openelections-results-ny'') ''clean/1__ny__b.csv''
             ''Create file clean/1__ny__b.csv'' ''votes'',
           Close ''/us/bakery/1__ny__b.csv''])
   \<and> (\<exists>w. is_write w \<and>
        snd (publish_file example_env example_self (''openelections'', ''openelections-results-ny'')
               ''/us/bakery/1__ny__a.csv'' ''master'' []) =
        [Send ''pre_publish'' ''GitHubPublisher'' ''/us/bakery/1__ny__a.csv'',
         Open ''/us/bakery/1__ny__a.csv'', Read ''/us/bakery/1__ny__a.csv'',
         Tree (''openelections'', ''openelections-results-ny'') ''master'', w,
         Close ''/us/bakery/1__ny__a.csv'',
         Send ''post_publish'' ''GitHubPublisher'' ''/us/bakery/1__ny__a.csv''])"
proof -
  let ?repo = "(''openelections'', ''openelections-results-ny'')"
  let ?a = "''/us/bakery/1__ny__a.csv''"
  let ?b = "''/us/bakery/1__ny__b.csv''"
  let ?pre_a = "Send ''pre_publish'' (cls example_self) ?a"
  let ?pre_b = "Send ''pre_publish'' (cls example_self) ?b"
  let ?tr4a = "[] @ [?pre_a, Open ?a, Read ?a] @ [Tree ?repo ''master'']"
  let ?tr5a = "?tr4a @ [UpdateFile ?repo ''clean/1__ny__a.csv'' ''Update file clean/1__ny__a.csv''
      ''votes'' ''22'']"
  let ?tr4 = "[] @ [?pre_b, Open ?b, Read ?b] @ [Tree ?repo ''master'']"
  let ?tr5 = "?tr4 @ [CreateFile ?repo ''clean/1__ny__b.csv'' ''Create file clean/1__ny__b.csv''
      ''votes'']"
  have ha: "signal_send example_env [] ''pre_publish'' (cls example_self) ?a = Inr ()
      \<and> file_open example_env ([] @ [?pre_a]) ?a = Inr ()
      \<and> file_read example_env ([] @ [?pre_a, Open ?a]) ?a = Inr ''votes''
      \<and> get_sha example_env ?repo (get_path ?a) ''master'' ([] @ [?pre_a, Open ?a, Read ?a])
          = (Inr (Some ''22''), ?tr4a)
      \<and> update_or_create example_env ?repo (get_path ?a) ''votes'' (Some ''22'') ?tr4a
          = (Inr (), ?tr5a)"
    by (simp add: example_env_def get_sha_run example_path_a example_sha_a update_or_create_run)
  note a = publish_file_notifications [where env = example_env and self = example_self
      and repo = ?repo and filename = ?a and branch = "''master''" and tr = "[]"
      and content = "''votes''" and sha = "Some ''22''" and ?tr4.0 = ?tr4a and ?tr5.0 = ?tr5a
      and v = "()" and u = "()"]
  from a ha have update: "publish_file example_env example_self ?repo ?a ''master'' [] =
      (signal_send example_env (?tr5a @ [Close ?a]) ''post_publish'' (cls example_self) ?a,
       ?tr5a @ [Close ?a, Send ''post_publish'' (cls example_self) ?a])"
    by blast
  then have ok: "fst (publish_file example_env example_self ?repo ?a ''master'' []) = Inr ()"
    by (simp add: example_env_def)
  from a ok have returned: "\<exists>w. is_write w \<and>
      snd (publish_file example_env example_self ?repo ?a ''master'' []) =
        [] @ [?pre_a, Open ?a, Read ?a, Tree ?repo ''master'', w,
         Close ?a, Send ''post_publish'' (cls example_self) ?a]"
    by blast
  have hb: "signal_send example_env [] ''pre_publish'' (cls example_self) ?b = Inr ()
      \<and> file_open example_env ([] @ [?pre_b]) ?b = Inr ()
      \<and> file_read example_env ([] @ [?pre_b, Open ?b]) ?b = Inr ''votes''
      \<and> get_sha example_env ?repo (get_path ?b) ''master'' ([] @ [?pre_b, Open ?b, Read ?b])
          = (Inr None, ?tr4)
      \<and> update_or_create example_env ?repo (get_path ?b) ''votes'' None ?tr4
          = (Inr (), ?tr5)"
    by (simp add: example_env_def get_sha_run example_path_b example_sha_b update_or_create_run)
  note b = publish_file_notifications [where env = example_env and self = example_self
      and repo = ?repo and filename = ?b and branch = "''master''" and tr = "[]"
      and content = "''votes''" and sha = None and ?tr4.0 = ?tr4 and ?tr5.0 = ?tr5
      and v = "()"]
  from b hb have create: "publish_file example_env example_self ?repo ?b ''master'' [] =
      (signal_send example_env (?tr5 @ [Close ?b]) ''post_publish'' (cls example_self) ?b,
       ?tr5 @ [Close ?b, Send ''post_publish'' (cls example_self) ?b])"
    by blast
  have hc: "signal_send readonly_env [] ''pre_publish'' (cls example_self) ?b = Inr ()
      \<and> file_open readonly_env ([] @ [?pre_b]) ?b = Inr ()
      \<and> file_read readonly_env ([] @ [?pre_b, Open ?b]) ?b = Inr ''votes''
      \<and> get_sha readonly_env ?repo (get_path ?b) ''master'' ([] @ [?pre_b, Open ?b, Read ?b])
          = (Inr None, ?tr4)
      \<and> update_or_create readonly_env ?repo (get_path ?b) ''votes'' None ?tr4
          = (Inl (CollaboratorError ''GitHubError''), ?tr5)"
    by (simp add: readonly_env_def example_env_def get_sha_run example_path_b example_sha_b
        update_or_create_run)
  note c = publish_file_notifications [where env = readonly_env and self = example_self
      and repo = ?repo and filename = ?b and branch = "''master''" and tr = "[]"
      and content = "''votes''" and sha = None and ?tr4.0 = ?tr4 and ?tr5.0 = ?tr5
      and e = "CollaboratorError ''GitHubError''"]
  from c hc have raised: "publish_file readonly_env example_self ?repo ?b ''master'' []
      = (Inl (CollaboratorError ''GitHubError''), ?tr5 @ [Close ?b])"
    by blast
  from update create raised returned show ?thesis
    by (simp add: example_env_def example_self_def)
qed

section \<open>Publishing all files\<close>

text \<open>
  Claim C4. After the login, the repository lookup and the search for the files have
  returned, \<open>publish\<close> publishes the files in the order of the list. When all of them are
  published, one \<^verbatim>\<open>merge\<close> of \<open>master\<close> into \<open>gh-pages\<close> is the last call, and the files
  have been notified in the order of the list. When one file raises after the files before
  it were published, \<open>publish\<close> raises the same exception with the log of that file as the
  end of its log: no \<^verbatim>\<open>merge\<close> is called, and only the files up to the failing one have
  been notified.
\<close>

theorem publish_stops_at_first_failure:
  assumes login: "github3_login env tr (username self) (password self) = Inr gh"
    and repo: "gh_repository env (tr @ [Login (username self) (password self)])
                 ''openelections'' (results_repo_name state) = Inr repo"
    and found: "BasePublisher_get_filenames env state datefilter raw None
                  (tr @ [Login (username self) (password self),
                         GetRepository ''openelections'' (results_repo_name state)])
                = (Inr filenames, tr0)"
  shows "(publish_files env self repo filenames tr0 = (Inr (), tr1) \<longrightarrow>
            publish env self state datefilter raw tr
              = (repo_merge env tr1 repo ''gh-pages'' ''master'',
                 tr1 @ [Merge repo ''gh-pages'' ''master''])
          \<and> filter is_merge (tr1 @ [Merge repo ''gh-pages'' ''master''])
              = filter is_merge tr @ [Merge repo ''gh-pages'' ''master'']
          \<and> filter (is_send ''pre_publish'') (tr1 @ [Merge repo ''gh-pages'' ''master''])
              = filter (is_send ''pre_publish'') tr
                @ map (Send ''pre_publish'' (cls self)) filenames)
     \<and> (filenames = published @ filename # remaining
          \<and> publish_files env self repo published tr0 = (Inr (), tr1)
          \<and> publish_file env self repo filename ''master'' tr1 = (Inl e, tr2) \<longrightarrow>
            publish env self state datefilter raw tr = (Inl e, tr2)
          \<and> filter is_merge tr2 = filter is_merge tr
          \<and> filter (is_send ''pre_publish'') tr2
              = filter (is_send ''pre_publish'') tr
                @ map (Send ''pre_publish'' (cls self)) (published @ [filename]))"
proof -
  let ?start = "tr @ [Login (username self) (password self),
                      GetRepository ''openelections'' (results_repo_name state)]"
  let ?merge = "perform (\<lambda>tr. repo_merge env tr repo ''gh-pages'' ''master'')
                  (Merge repo ''gh-pages'' ''master'')"
  have run: "publish env self state datefilter raw tr =
      bind_io (publish_files env self repo filenames) (\<lambda>_. ?merge) tr0"
    using login repo found by (simp add: publish_def bind_io_def perform_def)
  from get_filenames_log [of env state datefilter raw None ?start]
  obtain gs where "snd (get_filenames env state datefilter raw None ?start) = ?start @ map Glob gs"
    ..
  with found have tr0: "tr0 = ?start @ map Glob gs"
    by (simp add: BasePublisher_get_filenames_def)
  have m0: "filter is_merge tr0 = filter is_merge tr"
    and p0: "filter (is_send ''pre_publish'') tr0 = filter (is_send ''pre_publish'') tr"
    using filter_map_Glob [of gs] by (simp_all add: tr0)
  have all_done: "publish env self state datefilter raw tr
              = (repo_merge env tr1 repo ''gh-pages'' ''master'',
                 tr1 @ [Merge repo ''gh-pages'' ''master''])
          \<and> filter is_merge (tr1 @ [Merge repo ''gh-pages'' ''master''])
              = filter is_merge tr @ [Merge repo ''gh-pages'' ''master'']
          \<and> filter (is_send ''pre_publish'') (tr1 @ [Merge repo ''gh-pages'' ''master''])
              = filter (is_send ''pre_publish'') tr
                @ map (Send ''pre_publish'' (cls self)) filenames"
    if ok: "publish_files env self repo filenames tr0 = (Inr (), tr1)"
  proof -
    from publish_files_merges [of env self repo filenames tr0] ok m0
    have "filter is_merge tr1 = filter is_merge tr" by simp
    moreover from publish_files_pre_sends [OF ok] p0
    have "filter (is_send ''pre_publish'') tr1
        = filter (is_send ''pre_publish'') tr @ map (Send ''pre_publish'' (cls self)) filenames"
      by simp
    moreover from ok have "publish env self state datefilter raw tr
        = (repo_merge env tr1 repo ''gh-pages'' ''master'',
           tr1 @ [Merge repo ''gh-pages'' ''master''])"
      by (simp add: run bind_io_def perform_def)
    ultimately show ?thesis by simp
  qed
  have stopped: "publish env self state datefilter raw tr = (Inl e, tr2)
          \<and> filter is_merge tr2 = filter is_merge tr
          \<and> filter (is_send ''pre_publish'') tr2
              = filter (is_send ''pre_publish'') tr
                @ map (Send ''pre_publish'' (cls self)) (published @ [filename])"
    if fs: "filenames = published @ filename # remaining"
      and ok: "publish_files env self repo published tr0 = (Inr (), tr1)"
      and bad: "publish_file env self repo filename ''master'' tr1 = (Inl e, tr2)"
  proof -
    from publish_files_merges [of env self repo published tr0] ok m0
    have m1: "filter is_merge tr1 = filter is_merge tr" by simp
    from publish_file_merges [of env self repo filename "''master''" tr1] bad m1
    have m2: "filter is_merge tr2 = filter is_merge tr" by simp
    from publish_files_pre_sends [OF ok] p0
    have p1: "filter (is_send ''pre_publish'') tr1
        = filter (is_send ''pre_publish'') tr @ map (Send ''pre_publish'' (cls self)) published"
      by simp
    from publish_file_pre_sends [of env self repo filename "''master''" tr1] bad p1
    have p2: "filter (is_send ''pre_publish'') tr2
        = filter (is_send ''pre_publish'') tr
          @ map (Send ''pre_publish'' (cls self)) (published @ [filename])"
      by simp
    have "publish_files env self repo filenames tr0 = (Inl e, tr2)"
      unfolding fs publish_files_append using ok bad by (simp add: bind_io_def)
    then have "publish env self state datefilter raw tr = (Inl e, tr2)"
      by (simp add: run bind_io_def)
    with m2 p2 show ?thesis by simp
  qed
  from all_done stopped show ?thesis by blast
qed

theorem publish_stops_at_first_failure_witness:
  "publish example_env example_self ''ny'' None False [] =
     (Inr (),
      [Login ''user'' ''secret'', GetRepository ''openelections'' ''openelections-results-ny'',
       Glob ''/us/bakery/*__ny__*.csv'', Glob ''/us/bakery/*__ny__*.json'',
       Send ''pre_publish'' ''GitHubPublisher'' ''/us/bakery/1__ny__a.csv'',
       Open ''/us/bakery/1__ny__a.csv'', Read ''/us/bakery/1__ny__a.csv'',
       Tree (''openelections'', ''openelections-results-ny'') ''master'',
       UpdateFile (''openelections'', ''openelections-results-ny'') ''clean/1__ny__a.csv''
         ''Update file clean/1__ny__a.csv'' ''votes'' ''22'',
       Close ''/us/bakery/1__ny__a.csv'',
       Send ''post_publish'' ''GitHubPublisher'' ''/us/bakery/1__ny__a.csv'',
       Send ''pre_publish'' ''GitHubPublisher'' ''/us/bakery/1__ny__b.csv'',
       Open ''/us/bakery/1__ny__b.csv'', Read ''/us/bakery/1__ny__b.csv'',
       Tree (''openelections'', ''openelections-results-ny'') ''master'',
       CreateFile (''openelections'', ''openelections-results-ny'') ''clean/1__ny__b.csv''
         ''Create file clean/1__ny__b.csv'' ''votes'',
       Close ''/us/bakery/1__ny__b.csv'',
       Send ''post_publish'' ''GitHubPublisher'' ''/us/bakery/1__ny__b.csv'',
       Merge (''openelections'', ''openelections-results-ny'') ''gh-pages'' ''master''])
   \<and> publish unreadable_env example_self ''ny'' None False [] =
     (Inl (CollaboratorError ''IOError''),
      [Login ''user'' ''secret'', GetRepository ''openelections'' ''openelections-results-ny'',
       Glob ''/us/bakery/*__ny__*.csv'', Glob ''/us/bakery/*__ny__*.json'',
       Send ''pre_publish'' ''GitHubPublisher'' ''/us/bakery/1__ny__a.csv'',
       Open ''/us/bakery/1__ny__a.csv'', Read ''/us/bakery/1__ny__a.csv'',
       Tree (''openelections'', ''openelections-results-ny'') ''master'',
       UpdateFile (''openelections'', ''openelections-results-ny'') ''clean/1__ny__a.csv''
         ''Update file clean/1__ny__a.csv'' ''votes'' ''22'',
       Close ''/us/bakery/1__ny__a.csv'',
       Send ''post_publish'' ''GitHubPublisher'' ''/us/bakery/1__ny__a.csv'',
       Send ''pre_publish'' ''GitHubPublisher'' ''/us/bakery/1__ny__b.csv'',
       Open ''/us/bakery/1__ny__b.csv''])"
proof -
  let ?repo = "(''openelections'', ''openelections-results-ny'')"
  let ?a = "''/us/bakery/1__ny__a.csv''"
  let ?b = "''/us/bakery/1__ny__b.csv''"
  let ?start = "[] @ [Login (username example_self) (password example_self),
                      GetRepository ''openelections'' (results_repo_name ''ny'')]"
  let ?tr0 = "?start @ [Glob ''/us/bakery/*__ny__*.csv'', Glob ''/us/bakery/*__ny__*.json'']"
  let ?log_a = "[Send ''pre_publish'' ''GitHubPublisher'' ?a, Open ?a, Read ?a,
       Tree ?repo ''master'',
       UpdateFile ?repo ''clean/1__ny__a.csv'' ''Update file clean/1__ny__a.csv'' ''votes'' ''22'',
       Close ?a, Send ''post_publish'' ''GitHubPublisher'' ?a]"
  let ?log_b = "[Send ''pre_publish'' ''GitHubPublisher'' ?b, Open ?b, Read ?b,
       Tree ?repo ''master'',
       CreateFile ?repo ''clean/1__ny__b.csv'' ''Create file clean/1__ny__b.csv'' ''votes'',
       Close ?b, Send ''post_publish'' ''GitHubPublisher'' ?b]"
  have login: "github3_login example_env [] (username example_self) (password example_self)
      = Inr ()"
    by (simp add: example_env_def)
  have repo: "gh_repository example_env
      ([] @ [Login (username example_self) (password example_self)])
      ''openelections'' (results_repo_name ''ny'') = Inr ?repo"
    by (simp add: example_env_def example_repo_name)
  have found: "BasePublisher_get_filenames example_env ''ny'' None False None ?start
      = (Inr [?a, ?b], ?tr0)"
    by (simp add: example_filenames)
  have files: "publish_files example_env example_self ?repo [?a, ?b] ?tr0
      = (Inr (), ?tr0 @ ?log_a @ ?log_b)"
    by (simp add: bind_io_def example_publish_a example_publish_b)
  note ok = publish_stops_at_first_failure [OF login repo found,
      where ?tr1.0 = "?tr0 @ ?log_a @ ?log_b"]
  from ok files have first: "publish example_env example_self ''ny'' None False []
      = (repo_merge example_env (?tr0 @ ?log_a @ ?log_b) ?repo ''gh-pages'' ''master'',
         (?tr0 @ ?log_a @ ?log_b) @ [Merge ?repo ''gh-pages'' ''master''])"
    by blast
  have login': "github3_login unreadable_env [] (username example_self) (password example_self)
      = Inr ()"
    by (simp add: unreadable_env_def example_env_def)
  have repo': "gh_repository unreadable_env
      ([] @ [Login (username example_self) (password example_self)])
      ''openelections'' (results_repo_name ''ny'') = Inr ?repo"
    by (simp add: unreadable_env_def example_env_def example_repo_name)
  have found': "BasePublisher_get_filenames unreadable_env ''ny'' None False None ?start
      = (Inr [?a, ?b], ?tr0)"
    by (simp add: unreadable_filenames)
  have h: "[?a, ?b] = [?a] @ ?b # []
      \<and> publish_files unreadable_env example_self ?repo [?a] ?tr0 = (Inr (), ?tr0 @ ?log_a)
      \<and> publish_file unreadable_env example_self ?repo ?b ''master'' (?tr0 @ ?log_a)
          = (Inl (CollaboratorError ''IOError''),
             (?tr0 @ ?log_a) @ [Send ''pre_publish'' ''GitHubPublisher'' ?b, Open ?b])"
    by (simp add: bind_io_def unreadable_publish_a unreadable_publish_b)
  note bad = publish_stops_at_first_failure [OF login' repo' found',
      where published = "[?a]" and filename = ?b and remaining = "[]"
        and ?tr1.0 = "?tr0 @ ?log_a"
        and ?tr2.0 = "(?tr0 @ ?log_a) @ [Send ''pre_publish'' ''GitHubPublisher'' ?b, Open ?b]"
        and e = "CollaboratorError ''IOError''"]
  from bad h have second: "publish unreadable_env example_self ''ny'' None False []
      = (Inl (CollaboratorError ''IOError''),
         (?tr0 @ ?log_a) @ [Send ''pre_publish'' ''GitHubPublisher'' ?b, Open ?b])"
    by blast
  from first second show ?thesis
    by (simp add: example_env_def example_self_def example_repo_name)
qed

end
